theory Spec2Isabelle
  imports Main "HOL-Library.Word" "HOL-Library.Signed_Division"
begin

unbundle bit_operations_syntax

section \<open>Machine values\<close>

text \<open>
  The C types of \<^verbatim>\<open>deeplearn.c\<close>. An \<^verbatim>\<open>int\<close> and an \<^verbatim>\<open>unsigned int\<close> are 32-bit
  words; \<open>+\<close> and \<open>*\<close> wrap around, \<open>sint\<close> reads the two's complement value of an
  \<^verbatim>\<open>int\<close> and \<open>unat\<close> the value of an \<^verbatim>\<open>unsigned int\<close>. (C leaves signed overflow
  undefined; the model takes the two's complement result that the usual compilers give.)
  A \<^verbatim>\<open>float\<close> is its IEEE-754 single precision bit pattern. The code never does
  arithmetic on floats, it only copies and compares them, so the comparisons of C are
  defined on the bit pattern.
\<close>

type_synonym int32 = "32 word"
type_synonym uint32 = "32 word"
type_synonym float32 = "32 word"
type_synonym byte = "8 word"

definition UINT_MAX :: uint32 where
  "UINT_MAX = 0xFFFFFFFF"

definition c_div2 :: "int32 \<Rightarrow> int32" where
  \<comment> \<open>\<^verbatim>\<open>i / 2\<close> on an int: C truncates towards zero\<close>
  "c_div2 i = word_of_int (sint i sdiv 2)"

definition float_magnitude :: "float32 \<Rightarrow> float32" where
  \<comment> \<open>exponent and mantissa, the sign bit cleared\<close>
  "float_magnitude x = x AND 0x7FFFFFFF"

definition float_is_nan :: "float32 \<Rightarrow> bool" where
  \<comment> \<open>exponent all ones and a non-zero mantissa\<close>
  "float_is_nan x = (0x7F800000 < float_magnitude x)"

definition float_value_key :: "float32 \<Rightarrow> int" where
  \<comment> \<open>an integer that orders the non-NaN floats as their values are ordered;
      both zeros get 0\<close>
  "float_value_key x =
     (if bit x 31 then - uint (float_magnitude x) else uint (float_magnitude x))"

definition float_eq :: "float32 \<Rightarrow> float32 \<Rightarrow> bool" where
  \<comment> \<open>C's \<^verbatim>\<open>==\<close> on floats: false when either side is a NaN, and +0 equals -0\<close>
  "float_eq x y =
     (\<not> float_is_nan x \<and> \<not> float_is_nan y \<and> float_value_key x = float_value_key y)"

definition float_ne :: "float32 \<Rightarrow> float32 \<Rightarrow> bool" where
  \<comment> \<open>C's \<^verbatim>\<open>!=\<close> on floats\<close>
  "float_ne x y = (\<not> float_eq x y)"

definition float_lt :: "float32 \<Rightarrow> float32 \<Rightarrow> bool" where
  \<comment> \<open>C's \<^verbatim>\<open><\<close> on floats: false when either side is a NaN\<close>
  "float_lt x y =
     (\<not> float_is_nan x \<and> \<not> float_is_nan y \<and> float_value_key x < float_value_key y)"

section \<open>The data model\<close>

text \<open>
  \<^verbatim>\<open>deeplearn.h\<close> is not among the sources. The two constants it defines and that the
  code uses are parameters of the model: \<^verbatim>\<open>DEEPLEARN_HISTORY_SIZE\<close>, the length of the
  \<^verbatim>\<open>history\<close> array (the spec's capacity C), and \<^verbatim>\<open>DEEPLEARN_UNKNOWN_ERROR\<close>, the
  sentinel for an error that is not known yet.
\<close>

record config =
  DEEPLEARN_HISTORY_SIZE :: int32
  DEEPLEARN_UNKNOWN_ERROR :: float32

text \<open>
  The backprop network \<^verbatim>\<open>bp\<close>: the three fields that \<^verbatim>\<open>deeplearn.c\<close> reads or writes,
  and the rest of the object (units, weights, seed) as uninterpreted words.
\<close>

record bp =
  HiddenLayers :: int32
  BPerrorAverage :: float32
  net_itterations :: uint32
  units :: "32 word list"

text \<open>
  The struct \<^verbatim>\<open>deeplearn\<close>, with the fields that \<^verbatim>\<open>deeplearn.c\<close> uses. \<^verbatim>\<open>net\<close> points to an
  allocated network from \<^verbatim>\<open>deeplearn_init\<close> or \<^verbatim>\<open>deeplearn_load\<close> on; \<^verbatim>\<open>autocoder\<close> is a
  pointer that may be null (\<open>None\<close>). \<^verbatim>\<open>history\<close> is the array of
  \<^verbatim>\<open>DEEPLEARN_HISTORY_SIZE\<close> floats inside the struct, \<^verbatim>\<open>error_threshold\<close> the
  allocated array. The field \<^verbatim>\<open>itterations\<close> of the learner and the field
  \<^verbatim>\<open>itterations\<close> of a network are two different counters; the network's is
  \<open>net_itterations\<close> here.
\<close>

record deeplearn =
  training_complete :: int32
  itterations :: uint32
  current_hidden_layer :: int32
  BPerror :: float32
  net :: bp
  autocoder :: "bp option"
  error_threshold :: "float32 list"
  history :: "float32 list"
  history_index :: int32
  history_ctr :: int32
  history_step :: int32

section \<open>The network operations\<close>

text \<open>
  \<^verbatim>\<open>backprop.c\<close> is not among the sources either. The operations of the network that
  \<^verbatim>\<open>deeplearn.c\<close> calls are parameters of the model, one function for each. An
  operation that receives a pointer to a network returns the network it leaves behind;
  \<^verbatim>\<open>bp_save\<close> returns the bytes it appends to the file and its return value;
  \<^verbatim>\<open>bp_load\<close> receives the unread bytes of the file and the seed, and returns its
  return value, the network, the bytes left unread and the seed. \<^verbatim>\<open>bp_free\<close> only
  releases memory and has no counterpart.
\<close>

record bp_ops =
  bp_init :: "int32 \<Rightarrow> int32 \<Rightarrow> int32 \<Rightarrow> int32 \<Rightarrow> uint32 \<Rightarrow> bp \<times> uint32"
  bp_create_autocoder :: "bp \<Rightarrow> int32 \<Rightarrow> bp \<times> bp"
  bp_pretrain :: "bp \<Rightarrow> bp \<Rightarrow> int32 \<Rightarrow> bp \<times> bp"
  bp_update_from_autocoder :: "bp \<Rightarrow> bp \<Rightarrow> int32 \<Rightarrow> bp"
  bp_update :: "bp \<Rightarrow> bp"
  bp_save :: "bp \<Rightarrow> byte list \<times> int32"
  bp_load :: "byte list \<Rightarrow> uint32 \<Rightarrow> int32 \<times> bp \<times> byte list \<times> uint32"
  bp_compare :: "bp \<Rightarrow> bp \<Rightarrow> int32"

section \<open>Arrays and undefined behaviour\<close>

text \<open>
  The functions of \<^verbatim>\<open>deeplearn.c\<close> report no errors of their own. Where the C program
  has no defined behaviour (an array index outside its array, a null \<^verbatim>\<open>autocoder\<close>
  passed to the network, a block copied from beyond the end of the caller's array) the
  model returns \<open>None\<close>; \<open>Some\<close> is a call that returns.
\<close>

definition array_index_ok :: "int32 \<Rightarrow> 'a list \<Rightarrow> bool" where
  "array_index_ok i xs = (0 \<le> sint i \<and> nat (sint i) < length xs)"

definition size_of_int :: "int32 \<Rightarrow> nat" where
  \<comment> \<open>an int converted to \<^verbatim>\<open>size_t\<close> (64 bits)\<close>
  "size_of_int i = nat (sint i mod 2 ^ 64)"

section \<open>The history of error values\<close>

text \<open>
  The loop \<^verbatim>\<open>for (i = 0; i < history_index; i++) history[i/2] = history[i];\<close>
  of \<^verbatim>\<open>deeplean_update_history\<close>, from the value \<open>i\<close> of the counter on; \<open>n\<close> is the
  value of \<^verbatim>\<open>history_index\<close>. The counter is never negative, so \<^verbatim>\<open>i/2\<close> is \<open>i div 2\<close>.
  The loop runs right after \<^verbatim>\<open>history[history_index - 1]\<close> was written, so its indices
  are inside the array.
\<close>

function history_halve :: "nat \<Rightarrow> nat \<Rightarrow> float32 list \<Rightarrow> float32 list" where
  "history_halve i n h =
     (if i < n then history_halve (i + 1) n (h[i div 2 := h ! i]) else h)"
  by pat_completeness auto
termination
  by (relation "measure (\<lambda>(i, n, h). n - i)") auto

declare history_halve.simps [simp del]

text \<open>
  The value \<^verbatim>\<open>error_value\<close> that \<^verbatim>\<open>deeplean_update_history\<close> stores: the current
  error, or 0 when that equals the sentinel.
\<close>

definition recorded_error :: "config \<Rightarrow> deeplearn \<Rightarrow> float32" where
  "recorded_error cfg learner =
     (let error_value = BPerror learner
      in if float_eq error_value (DEEPLEARN_UNKNOWN_ERROR cfg) then 0 else error_value)"

definition deeplean_update_history :: "config \<Rightarrow> deeplearn \<Rightarrow> deeplearn option" where
  "deeplean_update_history cfg learner0 =
     (let learner = learner0\<lparr>history_ctr := history_ctr learner0 + 1\<rparr> in
      if sint (history_step learner) \<le> sint (history_ctr learner) then
        if \<not> array_index_ok (history_index learner) (history learner) then None
        else
          let error_value = recorded_error cfg learner;
              learner = learner\<lparr>history :=
                (history learner)[nat (sint (history_index learner)) := error_value]\<rparr>;
              learner = learner\<lparr>history_index := history_index learner + 1\<rparr>;
              learner = learner\<lparr>history_ctr := 0\<rparr>
          in
            if sint (DEEPLEARN_HISTORY_SIZE cfg) \<le> sint (history_index learner) then
              let learner = learner\<lparr>history :=
                    history_halve 0 (nat (sint (history_index learner))) (history learner)\<rparr>;
                  learner = learner\<lparr>history_index := c_div2 (history_index learner)\<rparr>;
                  learner = learner\<lparr>history_step := history_step learner * 2\<rparr>
              in Some learner
            else Some learner
      else Some learner)"

section \<open>Initialisation\<close>

text \<open>
  \<^verbatim>\<open>deeplearn_init\<close> writes into the struct that \<open>learner\<close> holds; what it does not
  write (the \<^verbatim>\<open>history\<close> array) keeps its former contents. The caller's array
  \<open>thresholds\<close> arrives as a bare pointer: the function copies \<^verbatim>\<open>hidden_layers+1\<close> floats
  from it and cannot see its length. The seed behind \<^verbatim>\<open>random_seed\<close> is returned next
  to the learner.
\<close>

definition deeplearn_init ::
  "bp_ops \<Rightarrow> config \<Rightarrow> deeplearn \<Rightarrow> int32 \<Rightarrow> int32 \<Rightarrow> int32 \<Rightarrow> int32 \<Rightarrow> float32 list \<Rightarrow> uint32
     \<Rightarrow> (deeplearn \<times> uint32) option" where
  "deeplearn_init ops cfg learner0 no_of_inputs no_of_hiddens hidden_layers no_of_outputs
       thresholds random_seed =
     (let learner = learner0\<lparr>training_complete := 0\<rparr> in
      if sint (hidden_layers + 1) < 0
         \<or> length thresholds < nat (sint (hidden_layers + 1)) then None
      else
        let learner = learner\<lparr>error_threshold :=
              take (nat (sint (hidden_layers + 1))) thresholds\<rparr>;
            learner = learner\<lparr>history_index := 0\<rparr>;
            learner = learner\<lparr>history_ctr := 0\<rparr>;
            learner = learner\<lparr>history_step := 1\<rparr>;
            learner = learner\<lparr>itterations := 0\<rparr>;
            learner = learner\<lparr>current_hidden_layer := 0\<rparr>;
            (n, seed) = bp_init ops no_of_inputs no_of_hiddens hidden_layers no_of_outputs
                          random_seed;
            learner = learner\<lparr>net := n\<rparr>;
            (n, a) = bp_create_autocoder ops (net learner) (current_hidden_layer learner);
            learner = learner\<lparr>net := n, autocoder := Some a\<rparr>;
            learner = learner\<lparr>BPerror := DEEPLEARN_UNKNOWN_ERROR cfg\<rparr>
        in Some (learner, seed))"

section \<open>One training step\<close>

text \<open>
  The body of \<^verbatim>\<open>if ((BPerror != UNKNOWN) && (BPerror < max) && (itterations > 100))\<close>:
  the hidden units are copied into the network, the autocoder is freed, the next layer
  becomes current and gets an autocoder of its own if it is a hidden layer.
\<close>

definition deeplearn_update_next_layer :: "bp_ops \<Rightarrow> config \<Rightarrow> deeplearn \<Rightarrow> bp \<Rightarrow> deeplearn" where
  "deeplearn_update_next_layer ops cfg learner0 a =
     (let learner = learner0\<lparr>net :=
            bp_update_from_autocoder ops (net learner0) a (current_hidden_layer learner0)\<rparr>;
          learner = learner\<lparr>autocoder := None\<rparr>;
          learner = learner\<lparr>current_hidden_layer := current_hidden_layer learner + 1\<rparr>;
          learner =
            (if sint (current_hidden_layer learner) < sint (HiddenLayers (net learner)) then
               let (n, a') = bp_create_autocoder ops (net learner) (current_hidden_layer learner)
               in learner\<lparr>net := n, autocoder := Some a'\<rparr>
             else learner)
      in learner\<lparr>BPerror := DEEPLEARN_UNKNOWN_ERROR cfg\<rparr>)"

text \<open>The branch \<^verbatim>\<open>/* pretraining */\<close> of \<^verbatim>\<open>deeplearn_update\<close>.\<close>

definition deeplearn_update_pretraining ::
  "bp_ops \<Rightarrow> config \<Rightarrow> float32 \<Rightarrow> deeplearn \<Rightarrow> deeplearn option" where
  "deeplearn_update_pretraining ops cfg max_backprop_error learner0 =
     (case autocoder learner0 of
        None \<Rightarrow> None
      | Some a0 \<Rightarrow>
          let (n, a) = bp_pretrain ops (net learner0) a0 (current_hidden_layer learner0);
              learner = learner0\<lparr>net := n, autocoder := Some a\<rparr>;
              learner = learner\<lparr>BPerror := BPerrorAverage a\<rparr>
          in
            if float_ne (BPerror learner) (DEEPLEARN_UNKNOWN_ERROR cfg)
               \<and> float_lt (BPerror learner) max_backprop_error
               \<and> 100 < net_itterations a
            then Some (deeplearn_update_next_layer ops cfg learner a)
            else Some learner)"

text \<open>The branch \<^verbatim>\<open>/* ordinary network training */\<close> of \<^verbatim>\<open>deeplearn_update\<close>.\<close>

definition deeplearn_update_training :: "bp_ops \<Rightarrow> float32 \<Rightarrow> deeplearn \<Rightarrow> deeplearn" where
  "deeplearn_update_training ops max_backprop_error learner0 =
     (let learner = learner0\<lparr>net := bp_update ops (net learner0)\<rparr>;
          learner = learner\<lparr>BPerror := BPerrorAverage (net learner)\<rparr>
      in if float_lt (BPerror learner) max_backprop_error
         then learner\<lparr>training_complete := 1\<rparr> else learner)"

text \<open>
  The last statement of \<^verbatim>\<open>deeplearn_update\<close>:
  \<^verbatim>\<open>if (learner->net->itterations < UINT_MAX) learner->net->itterations++;\<close>
\<close>

definition deeplearn_update_itterations :: "deeplearn \<Rightarrow> deeplearn" where
  "deeplearn_update_itterations learner =
     (if net_itterations (net learner) < UINT_MAX
      then learner\<lparr>net := (net learner)\<lparr>net_itterations := net_itterations (net learner) + 1\<rparr>\<rparr>
      else learner)"

definition deeplearn_update :: "bp_ops \<Rightarrow> config \<Rightarrow> deeplearn \<Rightarrow> deeplearn option" where
  "deeplearn_update ops cfg learner =
     (if training_complete learner = 1 then Some learner
      else if \<not> array_index_ok (current_hidden_layer learner) (error_threshold learner)
      then None
      else
        let max_backprop_error =
              error_threshold learner ! nat (sint (current_hidden_layer learner))
        in
          case (if sint (current_hidden_layer learner) < sint (HiddenLayers (net learner))
                then deeplearn_update_pretraining ops cfg max_backprop_error learner
                else Some (deeplearn_update_training ops max_backprop_error learner)) of
            None \<Rightarrow> None
          | Some learner1 \<Rightarrow>
              (case deeplean_update_history cfg learner1 of
                 None \<Rightarrow> None
               | Some learner2 \<Rightarrow> Some (deeplearn_update_itterations learner2)))"

text \<open>
  The caller's loop \<^verbatim>\<open>for (itt = 0; itt < n; itt++) deeplearn_update(&learner);\<close>
  as the tests run it.
\<close>

fun deeplearn_updates :: "bp_ops \<Rightarrow> config \<Rightarrow> nat \<Rightarrow> deeplearn \<Rightarrow> deeplearn option" where
  "deeplearn_updates ops cfg 0 learner = Some learner"
| "deeplearn_updates ops cfg (Suc n) learner =
     (case deeplearn_update ops cfg learner of
        None \<Rightarrow> None
      | Some learner1 \<Rightarrow> deeplearn_updates ops cfg n learner1)"

section \<open>Saving and loading\<close>

text \<open>
  \<^verbatim>\<open>fwrite\<close> and \<^verbatim>\<open>fread\<close> move objects of four bytes, in the byte order of the machine
  (the least significant byte first here; only that both use the same order matters).
  A file that is read is the list of its unread bytes.
\<close>

definition word_bytes :: "32 word \<Rightarrow> byte list" where
  "word_bytes w =
     [ucast w, ucast (drop_bit 8 w), ucast (drop_bit 16 w), ucast (drop_bit 24 w)]"

definition bytes_word :: "byte list \<Rightarrow> 32 word" where
  "bytes_word bs =
     ucast (bs ! 0) OR push_bit 8 (ucast (bs ! 1)) OR push_bit 16 (ucast (bs ! 2))
       OR push_bit 24 (ucast (bs ! 3))"

text \<open>
  \<^verbatim>\<open>fwrite(xs, 4, n, fp)\<close>: the bytes of the first \<open>n\<close> elements of the array; reading
  beyond the array is undefined.
\<close>

definition fwrite_items :: "nat \<Rightarrow> 32 word list \<Rightarrow> byte list option" where
  "fwrite_items n xs =
     (if length xs < n then None else Some (concat (map word_bytes (take n xs))))"

text \<open>
  \<^verbatim>\<open>fread(&x, 4, 1, fp)\<close>: the return value, the value of \<open>x\<close> afterwards and the unread
  bytes. When fewer than four bytes are left the call returns 0, the file is at its end
  and \<open>x\<close> keeps the value \<open>old\<close>.
\<close>

definition fread_word :: "32 word \<Rightarrow> byte list \<Rightarrow> int32 \<times> 32 word \<times> byte list" where
  "fread_word old fp =
     (if length fp < 4 then (0, old, []) else (1, bytes_word (take 4 fp), drop 4 fp))"

text \<open>
  \<^verbatim>\<open>fread(xs, 4, n, fp)\<close>: the elements that were read, at most \<open>n\<close>, and the unread
  bytes. The return value of the call is the number of these elements.
\<close>

fun fread_items :: "nat \<Rightarrow> byte list \<Rightarrow> 32 word list \<times> byte list" where
  "fread_items n fp =
     (if n = 0 then ([], fp)
      else if length fp < 4 then ([], [])
      else (let (ws, fp') = fread_items (n - 1) (drop 4 fp)
            in (bytes_word (take 4 fp) # ws, fp')))"

declare fread_items.simps [simp del]

text \<open>
  \<^verbatim>\<open>deeplearn_save\<close>: the return value and the bytes appended to the file. Every call
  assigns \<^verbatim>\<open>retval\<close>, so the function returns what the last \<^verbatim>\<open>fwrite\<close> returns, the
  number of history values written. Writing to the file itself is taken to succeed.
\<close>

definition deeplearn_save :: "bp_ops \<Rightarrow> deeplearn \<Rightarrow> (int32 \<times> byte list) option" where
  "deeplearn_save ops learner =
     (let fp = word_bytes (training_complete learner);
          fp = fp @ word_bytes (itterations learner);
          fp = fp @ word_bytes (current_hidden_layer learner);
          fp = fp @ word_bytes (BPerror learner);
          fp = fp @ fst (bp_save ops (net learner));
          fp = (case autocoder learner of
                  Some a \<Rightarrow> fp @ word_bytes 1 @ fst (bp_save ops a)
                | None \<Rightarrow> fp @ word_bytes 0)
      in
        case fwrite_items (size_of_int (HiddenLayers (net learner) + 1))
               (error_threshold learner) of
          None \<Rightarrow> None
        | Some thresholds \<Rightarrow>
            let fp = fp @ thresholds;
                fp = fp @ word_bytes (history_index learner);
                fp = fp @ word_bytes (history_ctr learner);
                fp = fp @ word_bytes (history_step learner)
            in
              case fwrite_items (size_of_int (history_index learner)) (history learner) of
                None \<Rightarrow> None
              | Some samples \<Rightarrow>
                  Some (word_of_nat (size_of_int (history_index learner)), fp @ samples))"

text \<open>
  \<^verbatim>\<open>deeplearn_load\<close>: the return value, the learner, the unread bytes and the seed.
  \<open>learner0\<close> is the struct as the caller hands it over; a field whose \<^verbatim>\<open>fread\<close> comes
  too late keeps what it held. The allocated \<^verbatim>\<open>error_threshold\<close> holds the floats that
  were read (what lies behind them in the block is not initialised). The function
  returns what the last \<^verbatim>\<open>fread\<close> returns, the number of history values read; more
  values than the \<^verbatim>\<open>history\<close> array holds overrun it.
\<close>

definition deeplearn_load ::
  "bp_ops \<Rightarrow> byte list \<Rightarrow> deeplearn \<Rightarrow> uint32 \<Rightarrow> (int32 \<times> deeplearn \<times> byte list \<times> uint32) option"
  where
  "deeplearn_load ops fp0 learner0 random_seed =
     (let (retval, v, fp) = fread_word (training_complete learner0) fp0;
          learner = learner0\<lparr>training_complete := v\<rparr>;
          (retval, v, fp) = fread_word (itterations learner) fp;
          learner = learner\<lparr>itterations := v\<rparr>;
          (retval, v, fp) = fread_word (current_hidden_layer learner) fp;
          learner = learner\<lparr>current_hidden_layer := v\<rparr>;
          (retval, v, fp) = fread_word (BPerror learner) fp;
          learner = learner\<lparr>BPerror := v\<rparr>;
          (retval, n, fp, seed) = bp_load ops fp random_seed;
          learner = learner\<lparr>net := n\<rparr>;
          (retval, val, fp) = fread_word 0 fp;
          (learner, fp, seed) =
            (if val = 1 then
               let (retval, a, fp, seed) = bp_load ops fp seed
               in (learner\<lparr>autocoder := Some a\<rparr>, fp, seed)
             else (learner\<lparr>autocoder := None\<rparr>, fp, seed));
          (thresholds, fp) = fread_items (size_of_int (HiddenLayers (net learner) + 1)) fp;
          learner = learner\<lparr>error_threshold := thresholds\<rparr>;
          (retval, v, fp) = fread_word (history_index learner) fp;
          learner = learner\<lparr>history_index := v\<rparr>;
          (retval, v, fp) = fread_word (history_ctr learner) fp;
          learner = learner\<lparr>history_ctr := v\<rparr>;
          (retval, v, fp) = fread_word (history_step learner) fp;
          learner = learner\<lparr>history_step := v\<rparr>;
          (samples, fp) = fread_items (size_of_int (history_index learner)) fp
      in
        if length (history learner) < length samples then None
        else Some (word_of_nat (length samples),
                   learner\<lparr>history := samples @ drop (length samples) (history learner)\<rparr>,
                   fp, seed))"

section \<open>Comparison\<close>

text \<open>
  The loops \<^verbatim>\<open>for (i = 0; i < n; i++) if (a[i] != b[i]) return ...;\<close> of
  \<^verbatim>\<open>deeplearn_compare\<close>, from the value \<open>i\<close> of the counter on: \<open>Some True\<close> when the
  loop returns from the function, \<open>Some False\<close> when it runs to its end.
\<close>

function compare_floats :: "nat \<Rightarrow> nat \<Rightarrow> float32 list \<Rightarrow> float32 list \<Rightarrow> bool option" where
  "compare_floats i n a b =
     (if i < n then
        if length a \<le> i \<or> length b \<le> i then None
        else if float_ne (a ! i) (b ! i) then Some True
        else compare_floats (i + 1) n a b
      else Some False)"
  by pat_completeness auto
termination
  by (relation "measure (\<lambda>(i, n, a, b). n - i)") auto

declare compare_floats.simps [simp del]

definition deeplearn_compare :: "bp_ops \<Rightarrow> deeplearn \<Rightarrow> deeplearn \<Rightarrow> int32 option" where
  "deeplearn_compare ops learner1 learner2 =
     (if current_hidden_layer learner1 \<noteq> current_hidden_layer learner2 then Some (- 1)
      else if float_ne (BPerror learner1) (BPerror learner2) then Some (- 2)
      else if sint (bp_compare ops (net learner1) (net learner2)) < 1 then Some (- 3)
      else if (autocoder learner1 = None) \<noteq> (autocoder learner2 = None) then Some (- 4)
      else if history_index learner1 \<noteq> history_index learner2 then Some (- 5)
      else if history_ctr learner1 \<noteq> history_ctr learner2 then Some (- 6)
      else if history_step learner1 \<noteq> history_step learner2 then Some (- 7)
      else
        case compare_floats 0 (nat (sint (history_index learner1)))
               (history learner1) (history learner2) of
          None \<Rightarrow> None
        | Some True \<Rightarrow> Some (- 8)
        | Some False \<Rightarrow>
            (if itterations learner1 \<noteq> itterations learner2 then Some (- 9)
             else
               (case compare_floats 0 (nat (sint (HiddenLayers (net learner1) + 1)))
                       (error_threshold learner1) (error_threshold learner2) of
                  None \<Rightarrow> None
                | Some True \<Rightarrow> Some (- 10)
                | Some False \<Rightarrow> Some 1)))"

text \<open>
  Saving a learner, loading the file into the struct \<open>learner2\<close> and comparing the two,
  as \<^verbatim>\<open>test_deeplearn_save_load\<close> and \<^verbatim>\<open>test_deeplearn_update\<close> do.
\<close>

definition save_load_compare :: "bp_ops \<Rightarrow> deeplearn \<Rightarrow> deeplearn \<Rightarrow> uint32 \<Rightarrow> int32 option" where
  "save_load_compare ops learner learner2 random_seed =
     (case deeplearn_save ops learner of
        None \<Rightarrow> None
      | Some (retval, fp) \<Rightarrow>
          (case deeplearn_load ops fp learner2 random_seed of
             None \<Rightarrow> None
           | Some (retval', loaded, fp', seed) \<Rightarrow> deeplearn_compare ops learner loaded))"

section \<open>A network to run the model on\<close>

text \<open>
  Modelled from the spec: \<^verbatim>\<open>backprop.c\<close> is missing, and the spec describes the network
  only by the operations it offers (section 6). This is a small stand-in with these
  operations, to run the functions above on concrete values.
  Its error average is 0.01 after every training step (\<open>0x3C23D70A\<close>) and 9999 before
  the first (\<open>0x461C3C00\<close>); a training step of an autocoder counts as 64 itterations.
  It saves the three fields of a network and compares the layer count and the
  itterations.
\<close>

definition stub_ops :: bp_ops where
  "stub_ops =
     \<lparr>bp_init = (\<lambda>no_of_inputs no_of_hiddens hidden_layers no_of_outputs seed.
         (\<lparr>HiddenLayers = hidden_layers, BPerrorAverage = 0x461C3C00, net_itterations = 0,
           units = [no_of_inputs, no_of_hiddens, no_of_outputs]\<rparr>, seed + 1)),
       bp_create_autocoder = (\<lambda>n layer.
         (n, \<lparr>HiddenLayers = 1, BPerrorAverage = 0x461C3C00, net_itterations = 0,
              units = [layer]\<rparr>)),
       bp_pretrain = (\<lambda>n a layer.
         (n, a\<lparr>BPerrorAverage := 0x3C23D70A, net_itterations := net_itterations a + 64\<rparr>)),
       bp_update_from_autocoder = (\<lambda>n a layer. n\<lparr>units := units n @ units a\<rparr>),
       bp_update = (\<lambda>n. n\<lparr>BPerrorAverage := 0x3C23D70A\<rparr>),
       bp_save = (\<lambda>n.
         (word_bytes (HiddenLayers n) @ word_bytes (BPerrorAverage n)
            @ word_bytes (net_itterations n), 1)),
       bp_load = (\<lambda>fp seed.
         (if length fp < 12 then 0 else 1,
          \<lparr>HiddenLayers = bytes_word (take 4 fp),
            BPerrorAverage = bytes_word (take 4 (drop 4 fp)),
            net_itterations = bytes_word (take 4 (drop 8 fp)), units = []\<rparr>,
          drop 12 fp, seed)),
       bp_compare = (\<lambda>n1 n2.
         if HiddenLayers n1 = HiddenLayers n2 \<and> net_itterations n1 = net_itterations n2
         then 1 else 0)\<rparr>"

definition stub_config :: config where
  "stub_config = \<lparr>DEEPLEARN_HISTORY_SIZE = 4, DEEPLEARN_UNKNOWN_ERROR = 0x461C3C00\<rparr>"

text \<open>A struct before \<^verbatim>\<open>deeplearn_init\<close> or \<^verbatim>\<open>deeplearn_load\<close>, with nothing set.\<close>

definition stub_memory :: deeplearn where
  "stub_memory =
     \<lparr>training_complete = 0, itterations = 0, current_hidden_layer = 0, BPerror = 0,
       net = \<lparr>HiddenLayers = 0, BPerrorAverage = 0, net_itterations = 0, units = []\<rparr>,
       autocoder = None, error_threshold = [], history = [0, 0, 0, 0],
       history_index = 0, history_ctr = 0, history_step = 0\<rparr>"

text \<open>
  A learner whose history is one sample short of its capacity of four: the samples
  1.0, 2.0 and 3.0 are stored and the current error is 4.0.
\<close>

definition compaction_example :: deeplearn where
  "compaction_example =
     stub_memory\<lparr>BPerror := 0x40800000,
       history := [0x3F800000, 0x40000000, 0x40400000, 0],
       history_index := 3, history_ctr := 0, history_step := 1\<rparr>"

text \<open>
  The learner that \<^verbatim>\<open>test_deeplearn_update\<close> creates, on the stand-in network: 10
  inputs, 4 hidden units in each of 2 hidden layers, 2 outputs, the thresholds 0.1, 0.1
  and 0.1 (\<open>0x3DCCCCCD\<close>) and the seed 123.
\<close>

definition test_learner :: deeplearn where
  "test_learner =
     \<lparr>training_complete = 0, itterations = 0, current_hidden_layer = 0,
       BPerror = 0x461C3C00,
       net = \<lparr>HiddenLayers = 2, BPerrorAverage = 0x461C3C00, net_itterations = 0,
               units = [10, 4, 2]\<rparr>,
       autocoder = Some \<lparr>HiddenLayers = 1, BPerrorAverage = 0x461C3C00,
                         net_itterations = 0, units = [0]\<rparr>,
       error_threshold = [0x3DCCCCCD, 0x3DCCCCCD, 0x3DCCCCCD],
       history = [0, 0, 0, 0], history_index = 0, history_ctr = 0, history_step = 1\<rparr>"

text \<open>The same learner after one call of \<^verbatim>\<open>deeplearn_update\<close>, and after four.\<close>

definition pretrained_learner :: deeplearn where
  "pretrained_learner =
     \<lparr>training_complete = 0, itterations = 0, current_hidden_layer = 0,
       BPerror = 0x3C23D70A,
       net = \<lparr>HiddenLayers = 2, BPerrorAverage = 0x461C3C00, net_itterations = 1,
               units = [10, 4, 2]\<rparr>,
       autocoder = Some \<lparr>HiddenLayers = 1, BPerrorAverage = 0x3C23D70A,
                         net_itterations = 64, units = [0]\<rparr>,
       error_threshold = [0x3DCCCCCD, 0x3DCCCCCD, 0x3DCCCCCD],
       history = [0x3C23D70A, 0, 0, 0], history_index = 1, history_ctr = 0,
       history_step = 1\<rparr>"

definition promoted_learner :: deeplearn where
  "promoted_learner =
     \<lparr>training_complete = 0, itterations = 0, current_hidden_layer = 2,
       BPerror = 0x461C3C00,
       net = \<lparr>HiddenLayers = 2, BPerrorAverage = 0x461C3C00, net_itterations = 4,
               units = [10, 4, 2, 0, 1]\<rparr>,
       autocoder = None,
       error_threshold = [0x3DCCCCCD, 0x3DCCCCCD, 0x3DCCCCCD],
       history = [0, 0, 0x3C23D70A, 0], history_index = 2, history_ctr = 0,
       history_step = 2\<rparr>"

text \<open>What \<^verbatim>\<open>deeplearn_init\<close> makes of a request for no hidden layer at all.\<close>

definition perceptron_learner :: deeplearn where
  "perceptron_learner =
     \<lparr>training_complete = 0, itterations = 0, current_hidden_layer = 0,
       BPerror = 0x461C3C00,
       net = \<lparr>HiddenLayers = 0, BPerrorAverage = 0x461C3C00, net_itterations = 0,
               units = [10, 4, 2]\<rparr>,
       autocoder = Some \<lparr>HiddenLayers = 1, BPerrorAverage = 0x461C3C00,
                         net_itterations = 0, units = [0]\<rparr>,
       error_threshold = [0x3DCCCCCD],
       history = [0, 0, 0, 0], history_index = 0, history_ctr = 0, history_step = 1\<rparr>"

section \<open>The promotion of a layer: the condition of the spec\<close>

text \<open>
  The condition of the spec (section 4.2) for promoting a layer, on the autocoder as
  the training step leaves it: its error is not UNKNOWN, it is strictly below the
  threshold of the layer, and the autocoder has made more than 100 steps.
\<close>

definition promotion_condition :: "config \<Rightarrow> float32 \<Rightarrow> bp \<Rightarrow> bool" where
  "promotion_condition cfg threshold a \<longleftrightarrow>
     float_ne (BPerrorAverage a) (DEEPLEARN_UNKNOWN_ERROR cfg)
     \<and> float_lt (BPerrorAverage a) threshold
     \<and> 100 < unat (net_itterations a)"

text \<open>The network with its counter of itterations advanced as \<^verbatim>\<open>deeplearn_update\<close> does.\<close>

definition saturating_count :: "bp \<Rightarrow> bp" where
  "saturating_count n =
     (if net_itterations n < UINT_MAX then n\<lparr>net_itterations := net_itterations n + 1\<rparr>
      else n)"

section \<open>The comparison, in the words of the spec\<close>

text \<open>
  The comparison as the spec describes it (section 4.5): the checks in their order,
  each with a failure code of its own, and 1 when all of them pass. \<open>same\<close> says when
  two floats agree: for the spec they agree bit for bit (\<open>(=)\<close>); \<^verbatim>\<open>deeplearn_compare\<close>
  uses the \<^verbatim>\<open>!=\<close> of C (\<open>float_eq\<close>).
\<close>

definition compare_spec ::
  "(float32 \<Rightarrow> float32 \<Rightarrow> bool) \<Rightarrow> bp_ops \<Rightarrow> deeplearn \<Rightarrow> deeplearn \<Rightarrow> int32" where
  "compare_spec same ops learner1 learner2 =
     (if current_hidden_layer learner1 \<noteq> current_hidden_layer learner2 then - 1
      else if \<not> same (BPerror learner1) (BPerror learner2) then - 2
      else if \<not> 1 \<le> sint (bp_compare ops (net learner1) (net learner2)) then - 3
      else if (autocoder learner1 = None) \<noteq> (autocoder learner2 = None) then - 4
      else if history_index learner1 \<noteq> history_index learner2 then - 5
      else if history_ctr learner1 \<noteq> history_ctr learner2 then - 6
      else if history_step learner1 \<noteq> history_step learner2 then - 7
      else if \<exists>i < nat (sint (history_index learner1)).
                \<not> same (history learner1 ! i) (history learner2 ! i) then - 8
      else if itterations learner1 \<noteq> itterations learner2 then - 9
      else if \<exists>i < nat (sint (HiddenLayers (net learner1) + 1)).
                \<not> same (error_threshold learner1 ! i) (error_threshold learner2 ! i) then - 10
      else 1)"



text \<open>Learners that differ from the learner of the test in their error only.\<close>

definition zero_error_learner :: deeplearn where
  "zero_error_learner = test_learner\<lparr>BPerror := 0\<rparr>"

definition negative_zero_error_learner :: deeplearn where
  "negative_zero_error_learner = test_learner\<lparr>BPerror := 0x80000000\<rparr>"

definition nan_error_learner :: deeplearn where
  "nan_error_learner = test_learner\<lparr>BPerror := 0x7FC00000\<rparr>"

text \<open>
  The learner of the test, had the first of its thresholds been a NaN (\<open>0x7FC00000\<close>).
\<close>

definition nan_threshold_learner :: deeplearn where
  "nan_threshold_learner = test_learner\<lparr>error_threshold := [0x7FC00000, 0x3DCCCCCD, 0x3DCCCCCD]\<rparr>"

text \<open>
  The file that \<^verbatim>\<open>deeplearn_save\<close> writes for the learner with two stored samples, and
  the same file with its last four bytes missing.
\<close>

definition saved_file :: "byte list" where
  "saved_file =
     (case deeplearn_save stub_ops promoted_learner of
        None \<Rightarrow> []
      | Some (retval, fp) \<Rightarrow> fp)"

definition truncated_file :: "byte list" where
  "truncated_file = take (length saved_file - 4) saved_file"

text \<open>
  A history of 1024 samples, and a learner whose pretraining never ends: one hidden
  layer, and thresholds of 0.0 that no error is below.
\<close>

definition long_config :: config where
  "long_config = \<lparr>DEEPLEARN_HISTORY_SIZE = 1024, DEEPLEARN_UNKNOWN_ERROR = 0x461C3C00\<rparr>"

definition long_memory :: deeplearn where
  "long_memory = stub_memory\<lparr>history := replicate 1024 0\<rparr>"

definition stalled_learner :: deeplearn where
  "stalled_learner =
     \<lparr>training_complete = 0, itterations = 0, current_hidden_layer = 0,
       BPerror = 0x461C3C00,
       net = \<lparr>HiddenLayers = 1, BPerrorAverage = 0x461C3C00, net_itterations = 0,
               units = [10, 4, 2]\<rparr>,
       autocoder = Some \<lparr>HiddenLayers = 1, BPerrorAverage = 0x461C3C00,
                         net_itterations = 0, units = [0]\<rparr>,
       error_threshold = [0, 0],
       history = replicate 1024 0, history_index = 0, history_ctr = 0, history_step = 1\<rparr>"

section \<open>What the theorems ask of the network\<close>

text \<open>
  Modelled from the spec: the network operations are missing from the sources and are
  parameters here; the spec (sections 4.4 and 6) gives their contract. The number of
  hidden layers of a network is the one it was built with, and training, promoting a
  layer or deriving an autocoder do not change it.
\<close>

definition bp_init_layers :: "bp_ops \<Rightarrow> bool" where
  "bp_init_layers ops \<longleftrightarrow>
     (\<forall>no_of_inputs no_of_hiddens hidden_layers no_of_outputs seed.
        HiddenLayers (fst (bp_init ops no_of_inputs no_of_hiddens hidden_layers
                             no_of_outputs seed)) = hidden_layers)"

definition bp_keeps_layers :: "bp_ops \<Rightarrow> bool" where
  "bp_keeps_layers ops \<longleftrightarrow>
     (\<forall>n a layer. HiddenLayers (fst (bp_pretrain ops n a layer)) = HiddenLayers n)
     \<and> (\<forall>n a layer. HiddenLayers (bp_update_from_autocoder ops n a layer) = HiddenLayers n)
     \<and> (\<forall>n layer. HiddenLayers (fst (bp_create_autocoder ops n layer)) = HiddenLayers n)
     \<and> (\<forall>n. HiddenLayers (bp_update ops n) = HiddenLayers n)"

text \<open>
  Modelled from the spec: \<^verbatim>\<open>bp_load\<close> reads back what \<^verbatim>\<open>bp_save\<close> wrote and leaves the
  rest of the file unread, and the network it returns has the hidden layers of the
  saved one and passes \<^verbatim>\<open>bp_compare\<close> with it.
\<close>

definition bp_save_load :: "bp_ops \<Rightarrow> bool" where
  "bp_save_load ops \<longleftrightarrow>
     (\<forall>n rest seed. \<exists>r n' seed'.
        bp_load ops (fst (bp_save ops n) @ rest) seed = (r, n', rest, seed')
        \<and> 1 \<le> sint (bp_compare ops n n') \<and> HiddenLayers n' = HiddenLayers n)"

section \<open>Invariants\<close>

text \<open>The autocoder exists exactly while a hidden layer is being pretrained.\<close>

definition autocoder_inv :: "deeplearn \<Rightarrow> bool" where
  "autocoder_inv learner \<longleftrightarrow>
     ((autocoder learner \<noteq> None)
        = (sint (current_hidden_layer learner) < sint (HiddenLayers (net learner))))"

text \<open>
  The write index is inside the \<^verbatim>\<open>history\<close> array, whose length is
  \<^verbatim>\<open>DEEPLEARN_HISTORY_SIZE\<close>.
\<close>

definition history_inv :: "config \<Rightarrow> deeplearn \<Rightarrow> bool" where
  "history_inv cfg learner \<longleftrightarrow>
     0 \<le> sint (history_index learner)
     \<and> sint (history_index learner) < sint (DEEPLEARN_HISTORY_SIZE cfg)"

text \<open>
  After \<open>n\<close> calls of \<^verbatim>\<open>deeplearn_update\<close> the step of the history is a power of two
  \<open>2 ^ k\<close>, the counter is below it, and at least \<open>2 ^ k - 1\<close> calls went into reaching
  this step.
\<close>

definition step_inv :: "nat \<Rightarrow> deeplearn \<Rightarrow> bool" where
  "step_inv n learner \<longleftrightarrow>
     (\<exists>k. sint (history_step learner) = 2 ^ k
          \<and> 0 \<le> sint (history_ctr learner) \<and> sint (history_ctr learner) < 2 ^ k
          \<and> 2 ^ k - 1 + sint (history_ctr learner) \<le> int n)"

text \<open>
  The current layer is a valid index of \<^verbatim>\<open>error_threshold\<close>, which has one entry for
  each hidden layer and one more.
\<close>

definition threshold_inv :: "deeplearn \<Rightarrow> bool" where
  "threshold_inv learner \<longleftrightarrow>
     0 \<le> sint (current_hidden_layer learner)
     \<and> sint (current_hidden_layer learner) \<le> sint (HiddenLayers (net learner))
     \<and> sint (HiddenLayers (net learner)) < 2147483647
     \<and> length (error_threshold learner) = nat (sint (HiddenLayers (net learner)) + 1)"

text \<open>No NaN among the floats that \<^verbatim>\<open>deeplearn_compare\<close> compares.\<close>

definition compared_floats_ordinary :: "deeplearn \<Rightarrow> bool" where
  "compared_floats_ordinary learner \<longleftrightarrow>
     \<not> float_is_nan (BPerror learner)
     \<and> (\<forall>x \<in> set (take (nat (sint (history_index learner))) (history learner)).
           \<not> float_is_nan x)
     \<and> (\<forall>x \<in> set (error_threshold learner). \<not> float_is_nan x)"

text \<open>
  What \<^verbatim>\<open>deeplearn_save\<close> needs of a learner: the thresholds are as many as the network
  has hidden layers, and one more, and the stored samples lie inside the \<^verbatim>\<open>history\<close>
  array.
\<close>

definition stored_inv :: "config \<Rightarrow> deeplearn \<Rightarrow> bool" where
  "stored_inv cfg learner \<longleftrightarrow>
     0 \<le> sint (HiddenLayers (net learner) + 1)
     \<and> length (error_threshold learner) = nat (sint (HiddenLayers (net learner) + 1))
     \<and> history_inv cfg learner
     \<and> length (history learner) = nat (sint (DEEPLEARN_HISTORY_SIZE cfg))"

text \<open>
  A learner on the stand-in network that stays in the pretraining of layer 0, with a
  history of \<open>C\<close> samples, the write index \<open>i\<close>, the counter \<open>c\<close> and the step \<open>2 ^ k\<close>
  (as a 32-bit int).
\<close>

definition stalled :: "nat \<Rightarrow> nat \<Rightarrow> nat \<Rightarrow> nat \<Rightarrow> deeplearn \<Rightarrow> bool" where
  "stalled C i c k learner \<longleftrightarrow>
     training_complete learner = 0 \<and> current_hidden_layer learner = 0
     \<and> HiddenLayers (net learner) = 1 \<and> autocoder learner \<noteq> None
     \<and> error_threshold learner = [0, 0] \<and> length (history learner) = C
     \<and> history_index learner = of_nat i \<and> history_ctr learner = of_nat c
     \<and> history_step learner = 2 ^ k"

text \<open>
  What a call of \<^verbatim>\<open>deeplearn_update\<close> needs to stay inside its arrays and to have an
  autocoder to train: while a hidden layer is current the autocoder is not null, the
  current layer is an index of the thresholds, and the write index is inside the
  history.
\<close>

definition autocoder_ready :: "deeplearn \<Rightarrow> bool" where
  "autocoder_ready learner \<longleftrightarrow>
     (sint (current_hidden_layer learner) < sint (HiddenLayers (net learner))
        \<longrightarrow> autocoder learner \<noteq> None)"

definition defined_inv :: "config \<Rightarrow> deeplearn \<Rightarrow> bool" where
  "defined_inv cfg learner \<longleftrightarrow>
     autocoder_ready learner \<and> threshold_inv learner \<and> history_inv cfg learner
     \<and> length (history learner) = nat (sint (DEEPLEARN_HISTORY_SIZE cfg))"

section \<open>Machine arithmetic\<close>

lemmas float_defs =
  float_eq_def float_ne_def float_lt_def float_is_nan_def float_magnitude_def
  float_value_key_def

lemmas stub_defs = stub_ops_def stub_config_def stub_memory_def

lemma sint_range32: "- 2147483648 \<le> sint (x :: 32 word) \<and> sint x \<le> 2147483647"
  using sint_ge [of x] sint_lt [of x] by simp

lemma sint_succ: "sint (x :: 32 word) < 2147483647 \<Longrightarrow> sint (x + 1) = sint x + 1"
proof -
  assume a: "sint x < 2147483647"
  have "- (2 ^ 31) \<le> sint x" using sint_ge [of x] by simp
  then show ?thesis using a
    by (simp add: sint_word_ariths signed_take_bit_int_eq_self)
qed

lemma sint_c_div2: "0 \<le> sint x \<Longrightarrow> sint (c_div2 x) = sint x div 2"
proof -
  assume a: "0 \<le> sint x"
  have r: "sint x \<le> 2147483647" using sint_range32 [of x] by simp
  have s: "sint x sdiv 2 = sint x div 2"
    using a by (simp add: signed_divide_int_def sgn_if)
  have "sint (c_div2 x) = signed_take_bit 31 (sint x div 2)"
    by (simp add: c_div2_def s sint_sbintrunc')
  also have "\<dots> = sint x div 2"
    using a r by (intro signed_take_bit_int_eq_self) auto
  finally show ?thesis .
qed

section \<open>The compaction of the history\<close>

text \<open>
  What the loop leaves in slot \<open>k\<close>: the iterations \<open>i = 2k\<close> and \<open>i = 2k + 1\<close> both
  write it, in this order, and both read a slot that no earlier iteration has written.
\<close>

lemma history_halve_nth:
  "n \<le> length h \<Longrightarrow> k < length h \<Longrightarrow>
   history_halve i n h ! k =
     (if i \<le> 2 * k + 1 \<and> 2 * k + 1 < n then h ! (2 * k + 1)
      else if i \<le> 2 * k \<and> 2 * k < n then h ! (2 * k) else h ! k)"
proof (induction i n h rule: history_halve.induct)
  case (1 i n h)
  show ?case
  proof (cases "i < n")
    case False
    then show ?thesis by (auto simp: history_halve.simps [of i n h])
  next
    case True
    let ?h = "h[i div 2 := h ! i]"
    have len: "n \<le> length ?h" "k < length ?h" using 1 by simp_all
    have ih: "history_halve (i + 1) n ?h ! k =
      (if i + 1 \<le> 2 * k + 1 \<and> 2 * k + 1 < n then ?h ! (2 * k + 1)
       else if i + 1 \<le> 2 * k \<and> 2 * k < n then ?h ! (2 * k) else ?h ! k)"
      using 1(1) [OF True len] .
    have d: "i div 2 < length h" using True 1(2) by linarith
    have "history_halve i n h ! k = history_halve (i + 1) n ?h ! k"
      using True by (simp add: history_halve.simps [of i n h])
    also have "\<dots> = (if i \<le> 2 * k + 1 \<and> 2 * k + 1 < n then h ! (2 * k + 1)
      else if i \<le> 2 * k \<and> 2 * k < n then h ! (2 * k) else h ! k)"
      unfolding ih using d True 1(2,3)
      by (auto simp: nth_list_update intro!: arg_cong [where f = "(!) h"])
    finally show ?thesis .
  qed
qed

lemma history_halve_length: "length (history_halve i n h) = length h"
  by (induction i n h rule: history_halve.induct)
     (simp add: history_halve.simps [of _ _ _] split: if_splits)

text \<open>
  C3, as the code has it. When a sample is recorded into the last free slot, so that
  \<^verbatim>\<open>history_index\<close> reaches \<^verbatim>\<open>DEEPLEARN_HISTORY_SIZE\<close>, the buffer is compacted in place
  and slot \<open>k\<close> receives the sample that stood at the odd index \<open>2k + 1\<close> before the
  compaction (the sample just recorded included); \<^verbatim>\<open>history_index\<close> becomes half the
  capacity and \<^verbatim>\<open>history_step\<close> is doubled.
\<close>

theorem compaction_keeps_odd_entries:
  assumes rec: "sint (history_step l) \<le> sint (history_ctr l + 1)"
    and idx0: "0 \<le> sint (history_index l)"
    and idx: "sint (history_index l) + 1 = sint (DEEPLEARN_HISTORY_SIZE cfg)"
    and len: "length (history l) = nat (sint (DEEPLEARN_HISTORY_SIZE cfg))"
  shows "\<exists>l'. deeplean_update_history cfg l = Some l'
           \<and> (\<forall>k. 2 * k + 1 < length (history l) \<longrightarrow>
                 history l' ! k
                   = (history l)[nat (sint (history_index l)) := recorded_error cfg l]
                       ! (2 * k + 1))
           \<and> sint (history_index l') = sint (DEEPLEARN_HISTORY_SIZE cfg) div 2
           \<and> history_step l' = history_step l * 2"
proof -
  let ?C = "DEEPLEARN_HISTORY_SIZE cfg"
  let ?pre = "(history l)[nat (sint (history_index l)) := recorded_error cfg l]"
  have lt: "sint (history_index l) < 2147483647"
    using idx sint_range32 [of ?C] by linarith
  have s1: "sint (history_index l + 1) = sint ?C"
    using sint_succ [OF lt] idx by simp
  then have w1: "history_index l + 1 = ?C" by (rule signed_word_eqI)
  have ok: "array_index_ok (history_index l) (history l)"
    using idx0 idx len by (simp add: array_index_ok_def)
  have eq: "deeplean_update_history cfg l =
      Some (l\<lparr>history_ctr := 0, history := history_halve 0 (nat (sint ?C)) ?pre,
              history_index := c_div2 ?C, history_step := history_step l * 2\<rparr>)"
    using rec ok by (simp add: deeplean_update_history_def recorded_error_def Let_def w1)
  have nth: "history_halve 0 (nat (sint ?C)) ?pre ! k = ?pre ! (2 * k + 1)"
    if "2 * k + 1 < length (history l)" for k
    using that len by (subst history_halve_nth) auto
  have c0: "0 \<le> sint ?C" using idx0 idx by linarith
  show ?thesis
    unfolding eq using nth sint_c_div2 [OF c0] by simp
qed

theorem compaction_keeps_odd_entries_witness:
  "sint (history_step compaction_example) \<le> sint (history_ctr compaction_example + 1)
   \<and> 0 \<le> sint (history_index compaction_example)
   \<and> sint (history_index compaction_example) + 1 = sint (DEEPLEARN_HISTORY_SIZE stub_config)
   \<and> length (history compaction_example) = nat (sint (DEEPLEARN_HISTORY_SIZE stub_config))
   \<and> (\<exists>l'. deeplean_update_history stub_config compaction_example = Some l'
         \<and> history l' ! 0 = 0x40000000 \<and> history l' ! 1 = 0x40800000
         \<and> sint (history_index l') = 2 \<and> history_step l' = 2)"
proof -
  have h1: "sint (history_step compaction_example) \<le> sint (history_ctr compaction_example + 1)"
    and h2: "0 \<le> sint (history_index compaction_example)"
    and h3: "sint (history_index compaction_example) + 1
               = sint (DEEPLEARN_HISTORY_SIZE stub_config)"
    and h4: "length (history compaction_example)
               = nat (sint (DEEPLEARN_HISTORY_SIZE stub_config))"
    by (simp_all add: compaction_example_def stub_defs)
  obtain l' where s: "deeplean_update_history stub_config compaction_example = Some l'"
    and k: "\<forall>k. 2 * k + 1 < length (history compaction_example) \<longrightarrow>
              history l' ! k
                = (history compaction_example)
                    [nat (sint (history_index compaction_example)) :=
                       recorded_error stub_config compaction_example] ! (2 * k + 1)"
    and i: "sint (history_index l') = sint (DEEPLEARN_HISTORY_SIZE stub_config) div 2"
    and t: "history_step l' = history_step compaction_example * 2"
    using compaction_keeps_odd_entries [OF h1 h2 h3 h4] by blast
  have "history l' ! 0 = 0x40000000"
    using k [rule_format, of 0] by (simp add: compaction_example_def stub_defs)
  moreover have "history l' ! 1 = 0x40800000"
    using k [rule_format, of 1]
    by (simp add: compaction_example_def stub_defs recorded_error_def float_defs)
  moreover have "sint (history_index l') = 2"
    using i by (simp add: stub_defs)
  moreover have "history_step l' = 2"
    using t by (simp add: compaction_example_def stub_defs)
  ultimately show ?thesis using h1 h2 h3 h4 s by blast
qed

text \<open>
  C3 as the spec words it does not hold. With the samples 1.0, 2.0, 3.0 stored and 4.0
  recorded into the last slot, slot 0 holds 2.0 after the compaction, not the sample 1.0
  of the even index 0.
\<close>

theorem compaction_even_counterexample:
  "map_option history (deeplean_update_history stub_config compaction_example)
     = Some [0x40000000, 0x40800000, 0x40400000, 0x40800000]
   \<and> [0x40000000, 0x40800000, 0x40400000, 0x40800000 :: float32] ! 0
       \<noteq> (history compaction_example)[3 := recorded_error stub_config compaction_example]
           ! (2 * 0)"
  by (simp add: deeplean_update_history_def compaction_example_def stub_defs
      array_index_ok_def recorded_error_def float_defs c_div2_def signed_divide_int_def
      history_halve.simps Let_def)

section \<open>Runs of \<^verbatim>\<open>deeplearn_update\<close>\<close>

text \<open>
  A property that every call of \<^verbatim>\<open>deeplearn_update\<close> keeps holds after any number of
  calls; so does one that counts the calls.
\<close>

lemma updates_invariant:
  assumes step: "\<And>l l'. I l \<Longrightarrow> deeplearn_update ops cfg l = Some l' \<Longrightarrow> I l'"
  shows "I l0 \<Longrightarrow> deeplearn_updates ops cfg n l0 = Some l \<Longrightarrow> I l"
proof (induction n arbitrary: l0)
  case 0
  then show ?case by simp
next
  case (Suc n)
  then obtain l1 where u: "deeplearn_update ops cfg l0 = Some l1"
    and r: "deeplearn_updates ops cfg n l1 = Some l"
    by (auto split: option.splits)
  from step [OF Suc.prems(1) u] have "I l1" .
  then show ?case using Suc.IH r by blast
qed

lemma updates_counted_invariant:
  assumes step: "\<And>j l l'. P j l \<Longrightarrow> deeplearn_update ops cfg l = Some l' \<Longrightarrow> P (Suc j) l'"
  shows "P j l0 \<Longrightarrow> deeplearn_updates ops cfg n l0 = Some l \<Longrightarrow> P (j + n) l"
proof (induction n arbitrary: l0 j)
  case 0
  then show ?case by simp
next
  case (Suc n)
  then obtain l1 where u: "deeplearn_update ops cfg l0 = Some l1"
    and r: "deeplearn_updates ops cfg n l1 = Some l"
    by (auto split: option.splits)
  from step [OF Suc.prems(1) u] have "P (Suc j) l1" .
  from Suc.IH [OF this r] show ?case by simp
qed

lemma updates_add:
  "deeplearn_updates ops cfg (m + n) l =
     (case deeplearn_updates ops cfg m l of None \<Rightarrow> None | Some l1 \<Rightarrow> deeplearn_updates ops cfg n l1)"
  by (induction m arbitrary: l) (auto split: option.splits)

text \<open>The fields that the parts of \<^verbatim>\<open>deeplearn_update\<close> leave alone.\<close>

lemma next_layer_history [simp]:
  "history_index (deeplearn_update_next_layer ops cfg l a) = history_index l"
  "history_ctr (deeplearn_update_next_layer ops cfg l a) = history_ctr l"
  "history_step (deeplearn_update_next_layer ops cfg l a) = history_step l"
  "history (deeplearn_update_next_layer ops cfg l a) = history l"
  "error_threshold (deeplearn_update_next_layer ops cfg l a) = error_threshold l"
  "itterations (deeplearn_update_next_layer ops cfg l a) = itterations l"
  "training_complete (deeplearn_update_next_layer ops cfg l a) = training_complete l"
  by (simp_all add: deeplearn_update_next_layer_def Let_def split: prod.splits)

lemma pretraining_history:
  assumes "deeplearn_update_pretraining ops cfg m l = Some l'"
  shows "history_index l' = history_index l" "history_ctr l' = history_ctr l"
    "history_step l' = history_step l" "history l' = history l"
    "error_threshold l' = error_threshold l" "itterations l' = itterations l"
    "training_complete l' = training_complete l"
  using assms
  by (auto simp: deeplearn_update_pretraining_def Let_def split: option.splits prod.splits if_splits)

lemma training_history [simp]:
  "history_index (deeplearn_update_training ops m l) = history_index l"
  "history_ctr (deeplearn_update_training ops m l) = history_ctr l"
  "history_step (deeplearn_update_training ops m l) = history_step l"
  "history (deeplearn_update_training ops m l) = history l"
  "error_threshold (deeplearn_update_training ops m l) = error_threshold l"
  "itterations (deeplearn_update_training ops m l) = itterations l"
  "autocoder (deeplearn_update_training ops m l) = autocoder l"
  "current_hidden_layer (deeplearn_update_training ops m l) = current_hidden_layer l"
  by (simp_all add: deeplearn_update_training_def Let_def)

lemma update_itterations_fields [simp]:
  "history_index (deeplearn_update_itterations l) = history_index l"
  "history_ctr (deeplearn_update_itterations l) = history_ctr l"
  "history_step (deeplearn_update_itterations l) = history_step l"
  "history (deeplearn_update_itterations l) = history l"
  "error_threshold (deeplearn_update_itterations l) = error_threshold l"
  "itterations (deeplearn_update_itterations l) = itterations l"
  "autocoder (deeplearn_update_itterations l) = autocoder l"
  "current_hidden_layer (deeplearn_update_itterations l) = current_hidden_layer l"
  "training_complete (deeplearn_update_itterations l) = training_complete l"
  "BPerror (deeplearn_update_itterations l) = BPerror l"
  "HiddenLayers (net (deeplearn_update_itterations l)) = HiddenLayers (net l)"
  by (simp_all add: deeplearn_update_itterations_def)

lemma update_history_other:
  assumes "deeplean_update_history cfg l = Some l'"
  shows "error_threshold l' = error_threshold l" "itterations l' = itterations l"
    "autocoder l' = autocoder l" "current_hidden_layer l' = current_hidden_layer l"
    "training_complete l' = training_complete l" "BPerror l' = BPerror l" "net l' = net l"
    "length (history l') = length (history l)"
  using assms
  by (auto simp: deeplean_update_history_def Let_def history_halve_length split: if_splits)

text \<open>The two ways through \<^verbatim>\<open>deeplearn_update\<close>.\<close>

lemma deeplearn_update_cases:
  assumes "deeplearn_update ops cfg l = Some l'"
  obtains (complete) "training_complete l = 1" "l' = l"
  | (step) l1 l2 where "training_complete l \<noteq> 1"
      "array_index_ok (current_hidden_layer l) (error_threshold l)"
      "if sint (current_hidden_layer l) < sint (HiddenLayers (net l))
       then deeplearn_update_pretraining ops cfg
              (error_threshold l ! nat (sint (current_hidden_layer l))) l = Some l1
       else l1 = deeplearn_update_training ops
              (error_threshold l ! nat (sint (current_hidden_layer l))) l"
      "deeplean_update_history cfg l1 = Some l2"
      "l' = deeplearn_update_itterations l2"
  using assms
  by (auto simp: deeplearn_update_def Let_def split: if_splits option.splits)

lemma update_step_history_fields:
  assumes "if c then deeplearn_update_pretraining ops cfg m l = Some l1
           else l1 = deeplearn_update_training ops m l"
  shows "history_index l1 = history_index l" "history_ctr l1 = history_ctr l"
    "history_step l1 = history_step l" "history l1 = history l"
    "error_threshold l1 = error_threshold l" "itterations l1 = itterations l"
  using assms by (auto split: if_splits simp: pretraining_history)

text \<open>The stand-in network and the learner of the test.\<close>

lemma stub_init_layers: "bp_init_layers stub_ops"
  by (simp add: bp_init_layers_def stub_ops_def)

lemma stub_keeps_layers: "bp_keeps_layers stub_ops"
  by (simp add: bp_keeps_layers_def stub_ops_def)

lemma test_learner_init:
  "deeplearn_init stub_ops stub_config stub_memory 10 4 2 2
     [0x3DCCCCCD, 0x3DCCCCCD, 0x3DCCCCCD] 123 = Some (test_learner, 124)"
  by code_simp

lemma test_learner_update: "deeplearn_update stub_ops stub_config test_learner = Some pretrained_learner"
  by code_simp

lemma test_learner_updates: "deeplearn_updates stub_ops stub_config 4 test_learner = Some promoted_learner"
  by code_simp

lemma promoted_learner_update:
  "deeplearn_updates stub_ops stub_config 1 promoted_learner
   = Some (promoted_learner\<lparr>training_complete := 1, BPerror := 0x3C23D70A,
        net := (net promoted_learner)\<lparr>BPerrorAverage := 0x3C23D70A, net_itterations := 5\<rparr>,
        history_ctr := 1\<rparr>)"
  by code_simp


section \<open>The bound of the history\<close>

lemma sint_double: "0 \<le> sint (x :: 32 word) \<Longrightarrow> sint x < 1073741824 \<Longrightarrow> sint (x * 2) = 2 * sint x"
  by (simp add: sint_word_ariths signed_take_bit_int_eq_self)

lemma update_history_inv:
  assumes c: "0 < sint (DEEPLEARN_HISTORY_SIZE cfg)"
    and i: "history_inv cfg l"
    and u: "deeplean_update_history cfg l = Some l'"
  shows "history_inv cfg l'"
proof -
  let ?C = "DEEPLEARN_HISTORY_SIZE cfg"
  have lt: "sint (history_index l) < 2147483647"
    using i sint_range32 [of ?C] by (simp add: history_inv_def)
  have s: "sint (history_index l + 1) = sint (history_index l) + 1"
    by (rule sint_succ [OF lt])
  have nn: "0 \<le> sint (history_index l + 1)" using i s by (simp add: history_inv_def)
  have d: "sint (c_div2 (history_index l + 1)) = (sint (history_index l) + 1) div 2"
    using sint_c_div2 [OF nn] s by simp
  show ?thesis
    using u i c s d
    by (auto simp: deeplean_update_history_def Let_def history_inv_def split: if_splits)
qed

lemma step_inv_mono: "step_inv n l \<Longrightarrow> step_inv (Suc n) l"
  by (auto simp: step_inv_def)

lemma update_history_step_inv:
  assumes i: "step_inv n l"
    and b: "int n + 1 < 2147483647"
    and u: "deeplean_update_history cfg l = Some l'"
  shows "step_inv (Suc n) l'"
proof -
  from i obtain k where k: "sint (history_step l) = 2 ^ k"
    and c0: "0 \<le> sint (history_ctr l)" and c1: "sint (history_ctr l) < 2 ^ k"
    and p: "2 ^ k - 1 + sint (history_ctr l) \<le> int n"
    by (auto simp: step_inv_def)
  have pos: "(1::int) \<le> 2 ^ k" by simp
  have small: "(2::int) ^ k < 2147483647" using p c0 b by linarith
  have cs: "sint (history_ctr l + 1) = sint (history_ctr l) + 1"
    using c1 small by (intro sint_succ) linarith
  show ?thesis
  proof (cases "sint (history_step l) \<le> sint (history_ctr l + 1)")
    case False
    then have "l' = l\<lparr>history_ctr := history_ctr l + 1\<rparr>"
      using u by (simp add: deeplean_update_history_def Let_def)
    then show ?thesis
      using k c0 p False cs
      by (auto simp: step_inv_def intro!: exI [where x = k])
  next
    case True
    then have full: "sint (history_ctr l) + 1 = 2 ^ k" using k cs c1 by linarith
    have dbl: "2 * (2::int) ^ k \<le> int n + 2" using p full by linarith
    consider (keep) "history_step l' = history_step l" "history_ctr l' = 0"
      | (double) "history_step l' = history_step l * 2" "history_ctr l' = 0"
      using u True
      by (auto simp: deeplean_update_history_def Let_def split: if_splits)
    then show ?thesis
    proof cases
      case keep
      then show ?thesis using k p c0 by (auto simp: step_inv_def intro!: exI [where x = k])
    next
      case double
      have r: "sint (history_step l) < 1073741824" using k dbl b by linarith
      have "sint (history_step l') = 2 ^ Suc k"
        using double(1) sint_double [of "history_step l"] r k by simp
      then show ?thesis using double(2) dbl
        by (auto simp: step_inv_def intro!: exI [where x = "Suc k"])
    qed
  qed
qed

lemma deeplearn_update_history_inv:
  assumes c: "0 < sint (DEEPLEARN_HISTORY_SIZE cfg)"
    and i: "history_inv cfg l"
    and u: "deeplearn_update ops cfg l = Some l'"
  shows "history_inv cfg l'"
  using u
proof (cases rule: deeplearn_update_cases)
  case complete
  then show ?thesis using i by simp
next
  case (step l1 l2)
  have "history_inv cfg l1"
    using i update_step_history_fields(1) [OF step(3)] by (simp add: history_inv_def)
  from update_history_inv [OF c this step(4)] show ?thesis
    using step(5) by (simp add: history_inv_def)
qed

lemma deeplearn_update_step_inv:
  assumes i: "step_inv n l"
    and b: "int n + 1 < 2147483647"
    and u: "deeplearn_update ops cfg l = Some l'"
  shows "step_inv (Suc n) l'"
  using u
proof (cases rule: deeplearn_update_cases)
  case complete
  then show ?thesis using i step_inv_mono by simp
next
  case (step l1 l2)
  have "step_inv n l1"
    using i update_step_history_fields(2,3) [OF step(3)] by (simp add: step_inv_def)
  from update_history_step_inv [OF this b step(4)] show ?thesis
    using step(5) by (simp add: step_inv_def)
qed

lemma init_fields:
  assumes "deeplearn_init ops cfg l00 ni nh hl no thr seed = Some (l0, seed')"
  shows "history_index l0 = 0" "history_ctr l0 = 0" "history_step l0 = 1"
    "history l0 = history l00" "itterations l0 = 0" "current_hidden_layer l0 = 0"
    "training_complete l0 = 0" "autocoder l0 \<noteq> None"
    "BPerror l0 = DEEPLEARN_UNKNOWN_ERROR cfg"
    "error_threshold l0 = take (nat (sint (hl + 1))) thr"
    "0 \<le> sint (hl + 1)" "nat (sint (hl + 1)) \<le> length thr"
    "net l0 = fst (bp_create_autocoder ops (fst (bp_init ops ni nh hl no seed)) 0)"
  using assms
  by (auto simp: deeplearn_init_def Let_def split: if_splits prod.splits)


lemma deeplearn_update_step_word:
  assumes i: "\<exists>k. history_step l = 2 ^ k"
    and u: "deeplearn_update ops cfg l = Some l'"
  shows "\<exists>k. history_step l' = 2 ^ k"
  using u
proof (cases rule: deeplearn_update_cases)
  case complete
  then show ?thesis using i by simp
next
  case (step l1 l2)
  from i obtain k where k: "history_step l1 = 2 ^ k"
    using update_step_history_fields(3) [OF step(3)] by auto
  have "history_step l2 = 2 ^ k \<or> history_step l2 = 2 ^ Suc k"
    using step(4) k
    by (auto simp: deeplean_update_history_def Let_def split: if_splits)
  then show ?thesis
  proof
    assume "history_step l2 = 2 ^ k"
    then have "history_step l' = 2 ^ k" using step(5) by simp
    then show ?thesis ..
  next
    assume "history_step l2 = 2 ^ Suc k"
    then have "history_step l' = 2 ^ Suc k" using step(5) by simp
    then show ?thesis ..
  qed
qed

text \<open>
  C8, as far as it holds. After \<^verbatim>\<open>deeplearn_init\<close> and any number \<open>N\<close> of calls of
  \<^verbatim>\<open>deeplearn_update\<close> the write index lies between 0 and the capacity, and the step is
  \<open>2 ^ k\<close> as a 32-bit int. It is the number \<open>2 ^ k\<close>, a power of two, as long as fewer
  than \<open>2 ^ 31 - 1\<close> calls were made; from the 31st doubling on the int has overflowed.
\<close>

theorem history_stays_bounded:
  assumes c: "0 < sint (DEEPLEARN_HISTORY_SIZE cfg)"
    and init: "deeplearn_init ops cfg l00 ni nh hl no thr seed = Some (l0, seed')"
    and run: "deeplearn_updates ops cfg N l0 = Some l"
  shows "0 \<le> sint (history_index l)
         \<and> sint (history_index l) \<le> sint (DEEPLEARN_HISTORY_SIZE cfg)
         \<and> (\<exists>k. history_step l = 2 ^ k)
         \<and> (N < 2147483647 \<longrightarrow> (\<exists>k. sint (history_step l) = 2 ^ k))"
proof -
  have h0: "history_inv cfg l0"
    using c init_fields(1) [OF init] by (simp add: history_inv_def)
  have h: "history_inv cfg l"
    using deeplearn_update_history_inv [OF c] h0 run by (rule updates_invariant)
  have w0: "\<exists>k. history_step l0 = 2 ^ k"
    using init_fields(3) [OF init] by (auto intro!: exI [where x = 0])
  have w: "\<exists>k. history_step l = 2 ^ k"
    using deeplearn_update_step_word w0 run
    by (rule updates_invariant [where I = "\<lambda>l. \<exists>k. history_step l = 2 ^ k"])
  let ?P = "\<lambda>j l. int j < 2147483647 \<longrightarrow> step_inv j l"
  have s0: "?P 0 l0"
    using init_fields(2,3) [OF init] by (auto simp: step_inv_def intro!: exI [where x = 0])
  have "?P (0 + N) l"
  proof (rule updates_counted_invariant [where P = ?P, OF _ s0 run])
    fix j l l'
    assume p: "int j < 2147483647 \<longrightarrow> step_inv j l"
      and u: "deeplearn_update ops cfg l = Some l'"
    show "int (Suc j) < 2147483647 \<longrightarrow> step_inv (Suc j) l'"
    proof
      assume b: "int (Suc j) < 2147483647"
      then have "step_inv j l" using p by simp
      then show "step_inv (Suc j) l'"
        using deeplearn_update_step_inv [OF _ _ u] b by simp
    qed
  qed
  then have "N < 2147483647 \<longrightarrow> (\<exists>k. sint (history_step l) = 2 ^ k)"
    by (auto simp: step_inv_def)
  then show ?thesis using h w by (simp add: history_inv_def)
qed

theorem history_stays_bounded_witness:
  "0 < sint (DEEPLEARN_HISTORY_SIZE stub_config) \<and> (4 :: nat) < 2147483647
   \<and> deeplearn_init stub_ops stub_config stub_memory 10 4 2 2
        [0x3DCCCCCD, 0x3DCCCCCD, 0x3DCCCCCD] 123 = Some (test_learner, 124)
   \<and> deeplearn_updates stub_ops stub_config 4 test_learner = Some promoted_learner
   \<and> 0 \<le> sint (history_index promoted_learner)
   \<and> sint (history_index promoted_learner) \<le> sint (DEEPLEARN_HISTORY_SIZE stub_config)
   \<and> (\<exists>k. sint (history_step promoted_learner) = 2 ^ k)"
proof -
  have c: "0 < sint (DEEPLEARN_HISTORY_SIZE stub_config)" by (simp add: stub_config_def)
  have n: "(4 :: nat) < 2147483647" by simp
  from history_stays_bounded [OF c test_learner_init test_learner_updates] n
  show ?thesis using c n test_learner_init test_learner_updates by blast
qed

section \<open>The layers and the autocoder\<close>

lemma next_layer_layers:
  assumes k: "bp_keeps_layers ops"
    and lt: "sint (current_hidden_layer l) < sint (HiddenLayers (net l))"
  shows "HiddenLayers (net (deeplearn_update_next_layer ops cfg l a)) = HiddenLayers (net l)"
    and "current_hidden_layer (deeplearn_update_next_layer ops cfg l a) = current_hidden_layer l + 1"
    and "sint (current_hidden_layer (deeplearn_update_next_layer ops cfg l a))
           = sint (current_hidden_layer l) + 1"
    and "autocoder_inv (deeplearn_update_next_layer ops cfg l a)"
proof -
  let ?n2 = "bp_update_from_autocoder ops (net l) a (current_hidden_layer l)"
  let ?c = "bp_create_autocoder ops ?n2 (current_hidden_layer l + 1)"
  have h2: "HiddenLayers ?n2 = HiddenLayers (net l)"
    using k by (simp add: bp_keeps_layers_def)
  have h3: "HiddenLayers (fst ?c) = HiddenLayers (net l)"
    using k h2 by (simp add: bp_keeps_layers_def)
  have s: "sint (current_hidden_layer l + 1) = sint (current_hidden_layer l) + 1"
    using lt sint_range32 [of "HiddenLayers (net l)"] by (intro sint_succ) linarith
  show "HiddenLayers (net (deeplearn_update_next_layer ops cfg l a)) = HiddenLayers (net l)"
    using h2 h3 by (simp add: deeplearn_update_next_layer_def Let_def split: prod.splits)
       (metis fst_conv)
  show "current_hidden_layer (deeplearn_update_next_layer ops cfg l a) = current_hidden_layer l + 1"
    by (simp add: deeplearn_update_next_layer_def Let_def split: prod.splits)
  then show "sint (current_hidden_layer (deeplearn_update_next_layer ops cfg l a))
           = sint (current_hidden_layer l) + 1"
    using s by simp
  show "autocoder_inv (deeplearn_update_next_layer ops cfg l a)"
    using h2 h3 
    by (simp add: deeplearn_update_next_layer_def Let_def autocoder_inv_def split: prod.splits)
       (metis fst_conv)
qed

lemma pretraining_layers:
  assumes k: "bp_keeps_layers ops"
    and lt: "sint (current_hidden_layer l) < sint (HiddenLayers (net l))"
    and u: "deeplearn_update_pretraining ops cfg m l = Some l'"
  shows "HiddenLayers (net l') = HiddenLayers (net l)"
    and "autocoder_inv l'"
    and "sint (current_hidden_layer l) \<le> sint (current_hidden_layer l')"
    and "sint (current_hidden_layer l') \<le> sint (HiddenLayers (net l))"
proof -
  from u obtain a0 where a0: "autocoder l = Some a0"
    by (auto simp: deeplearn_update_pretraining_def split: option.splits)
  let ?t = "bp_pretrain ops (net l) a0 (current_hidden_layer l)"
  let ?l1 = "l\<lparr>net := fst ?t, autocoder := Some (snd ?t), BPerror := BPerrorAverage (snd ?t)\<rparr>"
  have h: "HiddenLayers (fst ?t) = HiddenLayers (net l)"
    using k by (simp add: bp_keeps_layers_def)
  have lt1: "sint (current_hidden_layer ?l1) < sint (HiddenLayers (net ?l1))"
    using lt h by simp
  have c: "l' = deeplearn_update_next_layer ops cfg ?l1 (snd ?t) \<or> l' = ?l1"
    using u a0
    by (auto simp: deeplearn_update_pretraining_def Let_def split: prod.splits if_splits)
  have i1: "autocoder_inv ?l1" using lt h by (simp add: autocoder_inv_def)
  show "HiddenLayers (net l') = HiddenLayers (net l)"
    using c next_layer_layers(1) [OF k lt1] h by auto
  show "autocoder_inv l'"
    using c next_layer_layers(4) [OF k lt1] i1 by auto
  show "sint (current_hidden_layer l) \<le> sint (current_hidden_layer l')"
    using c next_layer_layers(3) [OF k lt1, of cfg "snd ?t"] by auto
  show "sint (current_hidden_layer l') \<le> sint (HiddenLayers (net l))"
    using c next_layer_layers(3) [OF k lt1, of cfg "snd ?t"] lt by auto
qed

lemma training_layers:
  assumes k: "bp_keeps_layers ops"
  shows "HiddenLayers (net (deeplearn_update_training ops m l)) = HiddenLayers (net l)"
  using k by (simp add: deeplearn_update_training_def Let_def bp_keeps_layers_def)

lemma deeplearn_update_layers:
  assumes k: "bp_keeps_layers ops"
    and u: "deeplearn_update ops cfg l = Some l'"
  shows "HiddenLayers (net l') = HiddenLayers (net l)
    \<and> error_threshold l' = error_threshold l
    \<and> sint (current_hidden_layer l) \<le> sint (current_hidden_layer l')
    \<and> (sint (current_hidden_layer l) \<le> sint (HiddenLayers (net l))
         \<longrightarrow> sint (current_hidden_layer l') \<le> sint (HiddenLayers (net l)))
    \<and> (autocoder_inv l \<longrightarrow> autocoder_inv l')
    \<and> (autocoder_inv l \<and> autocoder l = None \<longrightarrow> autocoder l' = None)"
  using u
proof (cases rule: deeplearn_update_cases)
  case complete
  then show ?thesis by simp
next
  case (step l1 l2)
  let ?m = "error_threshold l ! nat (sint (current_hidden_layer l))"
  have l': "HiddenLayers (net l') = HiddenLayers (net l1)" "autocoder l' = autocoder l1"
    "current_hidden_layer l' = current_hidden_layer l1"
    "error_threshold l' = error_threshold l"
    using step(5) update_history_other [OF step(4)] update_step_history_fields(5) [OF step(3)]
    by simp_all
  have a: "HiddenLayers (net l1) = HiddenLayers (net l)
      \<and> sint (current_hidden_layer l) \<le> sint (current_hidden_layer l1)
      \<and> (sint (current_hidden_layer l) \<le> sint (HiddenLayers (net l))
         \<longrightarrow> sint (current_hidden_layer l1) \<le> sint (HiddenLayers (net l)))
      \<and> (autocoder_inv l \<longrightarrow> autocoder_inv l1)
      \<and> (autocoder_inv l \<and> autocoder l = None \<longrightarrow> autocoder l1 = None)"
  proof (cases "sint (current_hidden_layer l) < sint (HiddenLayers (net l))")
    case True
    then have p: "deeplearn_update_pretraining ops cfg ?m l = Some l1" using step(3) by simp
    show ?thesis using pretraining_layers [OF k True p] True by (auto simp: autocoder_inv_def)
  next
    case False
    then have t: "l1 = deeplearn_update_training ops ?m l" using step(3) by simp
    show ?thesis using t False training_layers [OF k, of ?m l] by (simp add: autocoder_inv_def)
  qed
  show ?thesis using a l' by (auto simp: autocoder_inv_def)
qed

lemma init_layers:
  assumes bi: "bp_init_layers ops" and k: "bp_keeps_layers ops"
    and init: "deeplearn_init ops cfg l00 ni nh hl no thr seed = Some (l0, seed')"
  shows "HiddenLayers (net l0) = hl"
  using init_fields(13) [OF init] bi k
  by (simp add: bp_init_layers_def bp_keeps_layers_def)

text \<open>
  C9, for a network with at least one hidden layer. In every state that
  \<^verbatim>\<open>deeplearn_init\<close> and any number of calls of \<^verbatim>\<open>deeplearn_update\<close> lead to, the
  autocoder is present exactly when the current layer is below the number of hidden
  layers; so the promotion of the last hidden layer leaves none, and once it is absent
  it is absent in every later state.
\<close>

theorem autocoder_lifecycle:
  assumes bi: "bp_init_layers ops" and k: "bp_keeps_layers ops"
    and hl: "0 < sint hl"
    and init: "deeplearn_init ops cfg l00 ni nh hl no thr seed = Some (l0, seed')"
    and run: "deeplearn_updates ops cfg N l0 = Some l"
  shows "(autocoder l \<noteq> None) = (sint (current_hidden_layer l) < sint (HiddenLayers (net l)))
    \<and> HiddenLayers (net l) = hl
    \<and> (autocoder l = None \<longrightarrow>
         (\<forall>M l'. deeplearn_updates ops cfg M l = Some l' \<longrightarrow> autocoder l' = None))"
proof -
  let ?I = "\<lambda>l. autocoder_inv l \<and> HiddenLayers (net l) = hl"
  have step: "\<And>l l'. ?I l \<Longrightarrow> deeplearn_update ops cfg l = Some l' \<Longrightarrow> ?I l'"
    using deeplearn_update_layers [OF k] by metis
  have i0: "?I l0"
    using init_layers [OF bi k init] init_fields(6,8) [OF init] hl
    by (simp add: autocoder_inv_def)
  have i: "?I l" using step i0 run by (rule updates_invariant)
  let ?J = "\<lambda>l. autocoder_inv l \<and> autocoder l = None"
  have stepJ: "\<And>l l'. ?J l \<Longrightarrow> deeplearn_update ops cfg l = Some l' \<Longrightarrow> ?J l'"
    using deeplearn_update_layers [OF k] by metis
  have later: "autocoder l' = None"
    if n: "autocoder l = None" and r: "deeplearn_updates ops cfg M l = Some l'" for M l'
  proof -
    have "?J l" using i n by simp
    with stepJ have "?J l'" using r by (rule updates_invariant)
    then show ?thesis by simp
  qed
  show ?thesis using i later by (auto simp: autocoder_inv_def)
qed


theorem autocoder_lifecycle_witness:
  "bp_init_layers stub_ops \<and> bp_keeps_layers stub_ops \<and> 0 < sint (2 :: int32)
   \<and> deeplearn_init stub_ops stub_config stub_memory 10 4 2 2
        [0x3DCCCCCD, 0x3DCCCCCD, 0x3DCCCCCD] 123 = Some (test_learner, 124)
   \<and> deeplearn_updates stub_ops stub_config 4 test_learner = Some promoted_learner
   \<and> autocoder promoted_learner = None
   \<and> \<not> sint (current_hidden_layer promoted_learner) < sint (HiddenLayers (net promoted_learner))
   \<and> HiddenLayers (net promoted_learner) = 2
   \<and> map_option autocoder (deeplearn_updates stub_ops stub_config 1 promoted_learner) = Some None"
proof -
  have h: "0 < sint (2 :: int32)" by simp
  note t = autocoder_lifecycle [OF stub_init_layers stub_keeps_layers h test_learner_init
      test_learner_updates]
  have n: "autocoder promoted_learner = None" by (simp add: promoted_learner_def)
  from t n have "autocoder l' = None"
    if "deeplearn_updates stub_ops stub_config 1 promoted_learner = Some l'" for l'
    using that by blast
  then have m: "map_option autocoder (deeplearn_updates stub_ops stub_config 1 promoted_learner)
      = Some None"
    using promoted_learner_update by simp
  have a: "\<not> sint (current_hidden_layer promoted_learner)
             < sint (HiddenLayers (net promoted_learner))"
    using t n by blast
  have b: "HiddenLayers (net promoted_learner) = 2" using t by blast
  show ?thesis
    using a b m n h stub_init_layers stub_keeps_layers test_learner_init test_learner_updates
    by blast
qed


text \<open>
  C9 as the spec words it does not hold for a network without hidden layers:
  \<^verbatim>\<open>deeplearn_init\<close> creates the autocoder without looking at the number of hidden
  layers, so it is present although the current layer 0 is not below that number.
\<close>

theorem autocoder_without_hidden_layer_counterexample:
  "deeplearn_init stub_ops stub_config stub_memory 10 4 0 2 [0x3DCCCCCD] 123
     = Some (perceptron_learner, 124)
   \<and> autocoder perceptron_learner \<noteq> None
   \<and> \<not> sint (current_hidden_layer perceptron_learner)
         < sint (HiddenLayers (net perceptron_learner))"
  by (simp add: deeplearn_init_def stub_defs perceptron_learner_def Let_def)


section \<open>The promotion of a layer\<close>

lemma update_itterations_net:
  "net (deeplearn_update_itterations l) = saturating_count (net l)"
  by (simp add: deeplearn_update_itterations_def saturating_count_def)

lemma update_history_defined:
  "array_index_ok (history_index l) (history l) \<Longrightarrow> \<exists>l'. deeplean_update_history cfg l = Some l'"
  by (simp add: deeplean_update_history_def Let_def)

lemma word_succ_neq: "(x :: 32 word) + 1 \<noteq> x"
  by simp

text \<open>
  C2. A call of \<^verbatim>\<open>deeplearn_update\<close> in the pretraining phase, with \<open>n1\<close> and \<open>a1\<close> the
  network and the autocoder after \<^verbatim>\<open>bp_pretrain\<close>: the layer is promoted if and only if
  the condition of the spec holds of \<open>a1\<close>. Then the network is the one that
  \<^verbatim>\<open>bp_update_from_autocoder\<close> returns (\<open>n2\<close>), the current layer is one higher, the
  autocoder is a new one (\<open>a3\<close>) exactly when the new layer is below the number of hidden
  layers and null otherwise, and the error is UNKNOWN. Otherwise layer and autocoder
  stay and the error is the autocoder's average.
\<close>

theorem promotion_rule:
  assumes tc: "training_complete l \<noteq> 1"
    and pre: "sint (current_hidden_layer l) < sint (HiddenLayers (net l))"
    and ac: "autocoder l = Some a0"
    and thr: "array_index_ok (current_hidden_layer l) (error_threshold l)"
    and hist: "array_index_ok (history_index l) (history l)"
    and tr: "bp_pretrain ops (net l) a0 (current_hidden_layer l) = (n1, a1)"
    and tf: "bp_update_from_autocoder ops n1 a1 (current_hidden_layer l) = n2"
    and cr: "bp_create_autocoder ops n2 (current_hidden_layer l + 1) = (n3, a3)"
  shows "\<exists>l'. deeplearn_update ops cfg l = Some l'
     \<and> ((current_hidden_layer l' = current_hidden_layer l + 1)
          = promotion_condition cfg
              (error_threshold l ! nat (sint (current_hidden_layer l))) a1)
     \<and> (promotion_condition cfg (error_threshold l ! nat (sint (current_hidden_layer l))) a1
          \<longrightarrow> BPerror l' = DEEPLEARN_UNKNOWN_ERROR cfg
              \<and> (autocoder l' \<noteq> None)
                  = (sint (current_hidden_layer l + 1) < sint (HiddenLayers n2))
              \<and> (if sint (current_hidden_layer l + 1) < sint (HiddenLayers n2)
                  then autocoder l' = Some a3 \<and> net l' = saturating_count n3
                  else autocoder l' = None \<and> net l' = saturating_count n2))
     \<and> (\<not> promotion_condition cfg
              (error_threshold l ! nat (sint (current_hidden_layer l))) a1
          \<longrightarrow> current_hidden_layer l' = current_hidden_layer l
              \<and> autocoder l' = Some a1 \<and> BPerror l' = BPerrorAverage a1
              \<and> net l' = saturating_count n1)"
proof -
  let ?m = "error_threshold l ! nat (sint (current_hidden_layer l))"
  let ?lp = "l\<lparr>net := n1, autocoder := Some a1, BPerror := BPerrorAverage a1\<rparr>"
  let ?l1 = "if promotion_condition cfg ?m a1
             then deeplearn_update_next_layer ops cfg ?lp a1 else ?lp"
  have p: "deeplearn_update_pretraining ops cfg ?m l = Some ?l1"
    using ac tr
    by (simp add: deeplearn_update_pretraining_def Let_def promotion_condition_def
        word_less_nat_alt)
  have hf: "history_index ?l1 = history_index l" "history ?l1 = history l"
    by simp_all
  with hist have "array_index_ok (history_index ?l1) (history ?l1)" by simp
  then obtain l2 where h: "deeplean_update_history cfg ?l1 = Some l2"
    using update_history_defined by blast
  have u: "deeplearn_update ops cfg l = Some (deeplearn_update_itterations l2)"
    using tc thr pre p h by (simp add: deeplearn_update_def Let_def)
  let ?l' = "deeplearn_update_itterations l2"
  have f: "current_hidden_layer ?l' = current_hidden_layer ?l1"
    "autocoder ?l' = autocoder ?l1" "BPerror ?l' = BPerror ?l1"
    "net ?l' = saturating_count (net ?l1)"
    using update_history_other [OF h] by (simp_all add: update_itterations_net)
  have n: "current_hidden_layer (deeplearn_update_next_layer ops cfg ?lp a1)
             = current_hidden_layer l + 1"
    "BPerror (deeplearn_update_next_layer ops cfg ?lp a1) = DEEPLEARN_UNKNOWN_ERROR cfg"
    "autocoder (deeplearn_update_next_layer ops cfg ?lp a1)
       = (if sint (current_hidden_layer l + 1) < sint (HiddenLayers n2) then Some a3 else None)"
    "net (deeplearn_update_next_layer ops cfg ?lp a1)
       = (if sint (current_hidden_layer l + 1) < sint (HiddenLayers n2) then n3 else n2)"
    using tf cr by (simp_all add: deeplearn_update_next_layer_def Let_def)
  show ?thesis
  proof (cases "promotion_condition cfg ?m a1")
    case True
    then show ?thesis using u f n by (intro exI [where x = ?l']) simp
  next
    case False
    then show ?thesis using u f by (intro exI [where x = ?l']) simp
  qed
qed


theorem promotion_rule_witness:
  "training_complete pretrained_learner \<noteq> 1
   \<and> sint (current_hidden_layer pretrained_learner) < sint (HiddenLayers (net pretrained_learner))
   \<and> autocoder pretrained_learner
       = Some \<lparr>HiddenLayers = 1, BPerrorAverage = 0x3C23D70A, net_itterations = 64, units = [0]\<rparr>
   \<and> array_index_ok (current_hidden_layer pretrained_learner) (error_threshold pretrained_learner)
   \<and> array_index_ok (history_index pretrained_learner) (history pretrained_learner)
   \<and> promotion_condition stub_config 0x3DCCCCCD
        \<lparr>HiddenLayers = 1, BPerrorAverage = 0x3C23D70A, net_itterations = 128, units = [0]\<rparr>
   \<and> (\<exists>l'. deeplearn_update stub_ops stub_config pretrained_learner = Some l'
         \<and> current_hidden_layer l' = 1
         \<and> BPerror l' = DEEPLEARN_UNKNOWN_ERROR stub_config
         \<and> autocoder l'
             = Some \<lparr>HiddenLayers = 1, BPerrorAverage = 0x461C3C00, net_itterations = 0,
                      units = [1]\<rparr>
         \<and> net l' = \<lparr>HiddenLayers = 2, BPerrorAverage = 0x461C3C00, net_itterations = 2,
                      units = [10, 4, 2, 0]\<rparr>)"
proof -
  let ?a0 = "\<lparr>HiddenLayers = 1, BPerrorAverage = 0x3C23D70A, net_itterations = 64, units = [0]\<rparr>"
  let ?a1 = "\<lparr>HiddenLayers = 1, BPerrorAverage = 0x3C23D70A, net_itterations = 128, units = [0]\<rparr>"
  let ?n1 = "\<lparr>HiddenLayers = 2, BPerrorAverage = 0x461C3C00, net_itterations = 1, units = [10, 4, 2]\<rparr>"
  let ?n2 = "\<lparr>HiddenLayers = 2, BPerrorAverage = 0x461C3C00, net_itterations = 1, units = [10, 4, 2, 0]\<rparr>"
  let ?a3 = "\<lparr>HiddenLayers = 1, BPerrorAverage = 0x461C3C00, net_itterations = 0, units = [1]\<rparr>"
  have h1: "training_complete pretrained_learner \<noteq> 1"
    and h2: "sint (current_hidden_layer pretrained_learner)
               < sint (HiddenLayers (net pretrained_learner))"
    and h3: "autocoder pretrained_learner = Some ?a0"
    and h4: "array_index_ok (current_hidden_layer pretrained_learner)
               (error_threshold pretrained_learner)"
    and h5: "array_index_ok (history_index pretrained_learner) (history pretrained_learner)"
    by (simp_all add: pretrained_learner_def array_index_ok_def)
  have h6: "bp_pretrain stub_ops (net pretrained_learner) ?a0
              (current_hidden_layer pretrained_learner) = (?n1, ?a1)"
    and h7: "bp_update_from_autocoder stub_ops ?n1 ?a1 (current_hidden_layer pretrained_learner) = ?n2"
    and h8: "bp_create_autocoder stub_ops ?n2 (current_hidden_layer pretrained_learner + 1)
              = (?n2, ?a3)"
    by (simp_all add: pretrained_learner_def stub_ops_def)
  have c: "promotion_condition stub_config 0x3DCCCCCD ?a1"
    by (simp add: promotion_condition_def stub_config_def float_defs)
  have s: "saturating_count ?n2 = \<lparr>HiddenLayers = 2, BPerrorAverage = 0x461C3C00, net_itterations = 2,
                      units = [10, 4, 2, 0]\<rparr>"
    by (simp add: saturating_count_def UINT_MAX_def)
  from promotion_rule [OF h1 h2 h3 h4 h5 h6 h7 h8, of stub_config]
  have "\<exists>l'. deeplearn_update stub_ops stub_config pretrained_learner = Some l'
         \<and> current_hidden_layer l' = 1
         \<and> BPerror l' = DEEPLEARN_UNKNOWN_ERROR stub_config
         \<and> autocoder l' = Some ?a3
         \<and> net l' = \<lparr>HiddenLayers = 2, BPerrorAverage = 0x461C3C00, net_itterations = 2,
                      units = [10, 4, 2, 0]\<rparr>"
    using c s by (auto simp: pretrained_learner_def)
  then show ?thesis using h1 h2 h3 h4 h5 c by blast
qed


section \<open>Files\<close>

text \<open>What \<^verbatim>\<open>fread\<close> reads from the bytes that \<^verbatim>\<open>fwrite\<close> wrote.\<close>

lemma bytes_word_bytes: "bytes_word (word_bytes w) = w"
  unfolding word_bytes_def bytes_word_def
  apply (rule bit_word_eqI)
  apply (auto simp add: bit_simps)
  apply (rule ccontr)
  apply (simp add: not_less)
  done

lemma length_word_bytes [simp]: "length (word_bytes w) = 4"
  by (simp add: word_bytes_def)

lemma fread_word_written [simp]: "fread_word old (word_bytes w @ rest) = (1, w, rest)"
  by (simp add: fread_word_def bytes_word_bytes)

lemma fread_items_written:
  "length ws = n \<Longrightarrow> fread_items n (concat (map word_bytes ws) @ rest) = (ws, rest)"
proof (induction ws arbitrary: n)
  case Nil
  then show ?case by (simp add: fread_items.simps)
next
  case (Cons w ws)
  then obtain m where n: "n = Suc m" and m: "length ws = m" by auto
  have "fread_items n (concat (map word_bytes (w # ws)) @ rest)
      = (let (ws', fp') = fread_items m (concat (map word_bytes ws) @ rest)
         in (bytes_word (word_bytes w) # ws', fp'))"
    unfolding n by (subst fread_items.simps) simp
  then show ?case by (simp add: Cons.IH [OF m] bytes_word_bytes)
qed

lemma size_of_int_nonneg: "0 \<le> sint i \<Longrightarrow> size_of_int i = nat (sint i)"
proof -
  assume a: "0 \<le> sint i"
  have "sint i < 2 ^ 64" using sint_range32 [of i] by simp
  then show ?thesis using a by (simp add: size_of_int_def)
qed

lemma float_eq_refl: "float_eq x x = (\<not> float_is_nan x)"
  by (simp add: float_eq_def)

lemma compare_floats_in_range:
  "n \<le> length a \<Longrightarrow> n \<le> length b \<Longrightarrow>
   compare_floats i n a b = Some (\<exists>j. i \<le> j \<and> j < n \<and> float_ne (a ! j) (b ! j))"
proof (induction i n a b rule: compare_floats.induct)
  case (1 i n a b)
  show ?case
  proof (cases "i < n")
    case False
    then show ?thesis by (simp add: compare_floats.simps [of i n a b])
  next
    case True
    then have r: "\<not> (length a \<le> i \<or> length b \<le> i)" using 1(2,3) by simp
    show ?thesis
    proof (cases "float_ne (a ! i) (b ! i)")
      case ne: True
      then show ?thesis using True r
        by (auto simp: compare_floats.simps [of i n a b])
    next
      case eq: False
      have "compare_floats i n a b = compare_floats (i + 1) n a b"
        using True r eq by (simp add: compare_floats.simps [of i n a b])
      also have "\<dots> = Some (\<exists>j. i + 1 \<le> j \<and> j < n \<and> float_ne (a ! j) (b ! j))"
        using 1(1) [OF True r eq 1(2,3)] .
      also have "(\<exists>j. i + 1 \<le> j \<and> j < n \<and> float_ne (a ! j) (b ! j))
          = (\<exists>j. i \<le> j \<and> j < n \<and> float_ne (a ! j) (b ! j))"
        using eq by (metis Suc_eq_plus1 Suc_leD Suc_leI le_neq_implies_less)
      finally show ?thesis .
    qed
  qed
qed

section \<open>The comparison\<close>

text \<open>
  C6, with the floats compared as C compares them. On two learners whose arrays hold
  the entries that the loops read, \<^verbatim>\<open>deeplearn_compare\<close> makes the checks of the spec in
  the order of the spec and returns the code of the first one that fails, the codes are
  pairwise different, and it returns 1 exactly when every check passes. A float agrees
  with another when \<^verbatim>\<open>!=\<close> is false: a NaN agrees with nothing, not even with itself,
  and the two zeros agree with each other.
\<close>

theorem compare_checks_in_order:
  assumes h1: "nat (sint (history_index l1)) \<le> length (history l1)"
    and h2: "nat (sint (history_index l1)) \<le> length (history l2)"
    and t1: "nat (sint (HiddenLayers (net l1) + 1)) \<le> length (error_threshold l1)"
    and t2: "nat (sint (HiddenLayers (net l1) + 1)) \<le> length (error_threshold l2)"
  shows "deeplearn_compare ops l1 l2 = Some (compare_spec float_eq ops l1 l2)
    \<and> distinct [- 1, - 2, - 3, - 4, - 5, - 6, - 7, - 8, - 9, - 10, 1 :: int32]
    \<and> (deeplearn_compare ops l1 l2 = Some 1) =
        (current_hidden_layer l1 = current_hidden_layer l2
         \<and> float_eq (BPerror l1) (BPerror l2)
         \<and> 1 \<le> sint (bp_compare ops (net l1) (net l2))
         \<and> (autocoder l1 = None) = (autocoder l2 = None)
         \<and> history_index l1 = history_index l2
         \<and> history_ctr l1 = history_ctr l2
         \<and> history_step l1 = history_step l2
         \<and> (\<forall>i < nat (sint (history_index l1)). float_eq (history l1 ! i) (history l2 ! i))
         \<and> itterations l1 = itterations l2
         \<and> (\<forall>i < nat (sint (HiddenLayers (net l1) + 1)).
               float_eq (error_threshold l1 ! i) (error_threshold l2 ! i)))"
proof -
  have hs: "compare_floats 0 (nat (sint (history_index l1))) (history l1) (history l2)
      = Some (\<exists>i < nat (sint (history_index l1)).
                \<not> float_eq (history l1 ! i) (history l2 ! i))"
    by (simp add: compare_floats_in_range [OF h1 h2] float_ne_def)
  have ts: "compare_floats 0 (nat (sint (HiddenLayers (net l1) + 1)))
        (error_threshold l1) (error_threshold l2)
      = Some (\<exists>i < nat (sint (HiddenLayers (net l1) + 1)).
                \<not> float_eq (error_threshold l1 ! i) (error_threshold l2 ! i))"
    by (simp add: compare_floats_in_range [OF t1 t2] float_ne_def)
  have e: "deeplearn_compare ops l1 l2 = Some (compare_spec float_eq ops l1 l2)"
    unfolding deeplearn_compare_def compare_spec_def hs ts float_ne_def
    by (simp only: option.case case_bool_if if_distrib [of Some] not_le)
  have d: "distinct [- 1, - 2, - 3, - 4, - 5, - 6, - 7, - 8, - 9, - 10, 1 :: int32]"
    by simp
  have s: "(compare_spec float_eq ops l1 l2 = 1) =
        (current_hidden_layer l1 = current_hidden_layer l2
         \<and> float_eq (BPerror l1) (BPerror l2)
         \<and> 1 \<le> sint (bp_compare ops (net l1) (net l2))
         \<and> (autocoder l1 = None) = (autocoder l2 = None)
         \<and> history_index l1 = history_index l2
         \<and> history_ctr l1 = history_ctr l2
         \<and> history_step l1 = history_step l2
         \<and> (\<forall>i < nat (sint (history_index l1)). float_eq (history l1 ! i) (history l2 ! i))
         \<and> itterations l1 = itterations l2
         \<and> (\<forall>i < nat (sint (HiddenLayers (net l1) + 1)).
               float_eq (error_threshold l1 ! i) (error_threshold l2 ! i)))"
    unfolding compare_spec_def
    apply (simp only: if_distrib [of "\<lambda>x. x = 1"] not_le)
    apply (simp add: not_less)
    apply (meson not_le)
    done
  show ?thesis unfolding e using d s by (simp only: option.inject simp_thms)
qed


section \<open>Saving, loading and comparing\<close>

lemma fread_items_written_end:
  "length ws = n \<Longrightarrow> fread_items n (concat (map word_bytes ws)) = (ws, [])"
  using fread_items_written [of ws n "[]"] by simp

lemma compare_floats_same:
  assumes "n \<le> length a" "n \<le> length b"
    and "\<forall>j < n. a ! j = b ! j \<and> \<not> float_is_nan (a ! j)"
  shows "compare_floats 0 n a b = Some False"
  using assms by (auto simp: compare_floats_in_range float_ne_def float_eq_def)

lemma round_trip:
  assumes sl: "bp_save_load ops"
    and t0: "0 \<le> sint (HiddenLayers (net l) + 1)"
    and t1: "length (error_threshold l) = nat (sint (HiddenLayers (net l) + 1))"
    and h0: "0 \<le> sint (history_index l)"
    and h1: "nat (sint (history_index l)) \<le> length (history l)"
    and h2: "nat (sint (history_index l)) \<le> length (history fresh)"
    and ord: "compared_floats_ordinary l"
  shows "save_load_compare ops l fresh seed = Some 1"
proof -
  let ?n = "nat (sint (HiddenLayers (net l) + 1))"
  let ?i = "nat (sint (history_index l))"
  let ?hs = "take ?i (history l)"
  let ?tail = "concat (map word_bytes (error_threshold l)) @ word_bytes (history_index l)
      @ word_bytes (history_ctr l) @ word_bytes (history_step l)
      @ concat (map word_bytes ?hs)"
  let ?flag = "case autocoder l of None \<Rightarrow> word_bytes 0
      | Some a \<Rightarrow> word_bytes 1 @ fst (bp_save ops a)"
  let ?file = "word_bytes (training_complete l) @ word_bytes (itterations l)
      @ word_bytes (current_hidden_layer l) @ word_bytes (BPerror l)
      @ fst (bp_save ops (net l)) @ ?flag @ ?tail"
  have sn: "size_of_int (HiddenLayers (net l) + 1) = ?n"
    using t0 by (rule size_of_int_nonneg)
  have si: "size_of_int (history_index l) = ?i"
    using h0 by (rule size_of_int_nonneg)
  have save: "deeplearn_save ops l = Some (word_of_nat ?i, ?file)"
    using t1 h1 by (simp add: deeplearn_save_def Let_def fwrite_items_def sn si
        split: option.splits)
  from sl obtain r n' s1 where
    ln: "bp_load ops (fst (bp_save ops (net l)) @ ?flag @ ?tail) seed = (r, n', ?flag @ ?tail, s1)"
    and cn: "1 \<le> sint (bp_compare ops (net l) n')"
    and hn: "HiddenLayers n' = HiddenLayers (net l)"
    unfolding bp_save_load_def by meson
  let ?common = "fresh\<lparr>training_complete := training_complete l,
      itterations := itterations l, current_hidden_layer := current_hidden_layer l,
      BPerror := BPerror l, net := n', error_threshold := error_threshold l,
      history_index := history_index l, history_ctr := history_ctr l,
      history_step := history_step l,
      history := ?hs @ drop ?i (history fresh)\<rparr>"
  have lhs: "length ?hs = ?i" using h1 by simp
  have rt: "fread_items ?n (concat (map word_bytes (error_threshold l)) @ rest)
      = (error_threshold l, rest)" for rest
    using t1 by (intro fread_items_written) simp
  have rh: "fread_items ?i (concat (map word_bytes ?hs)) = (?hs, [])"
    using lhs by (intro fread_items_written_end)
  let ?a2 = "case autocoder l of None \<Rightarrow> None
      | Some a \<Rightarrow> Some (fst (snd (bp_load ops (fst (bp_save ops a) @ ?tail) s1)))"
  let ?s2 = "case autocoder l of None \<Rightarrow> s1
      | Some a \<Rightarrow> snd (snd (snd (bp_load ops (fst (bp_save ops a) @ ?tail) s1)))"
  define l2 where "l2 = ?common\<lparr>autocoder := ?a2\<rparr>"
  have load: "deeplearn_load ops ?file fresh seed = Some (word_of_nat ?i, l2, [], ?s2)"
  proof (cases "autocoder l")
    case None
    show ?thesis
      using ln h2 lhs
      by (simp add: deeplearn_load_def Let_def None hn sn si rt rh l2_def)
  next
    case (Some a)
    from sl obtain r2 a' s2 where
      la: "bp_load ops (fst (bp_save ops a) @ ?tail) s1 = (r2, a', ?tail, s2)"
      unfolding bp_save_load_def by meson
    show ?thesis
      using ln la h2 lhs
      by (simp add: deeplearn_load_def Let_def Some hn sn si rt rh l2_def)
  qed
  have pr: "(autocoder l2 = None) = (autocoder l = None)"
    by (simp add: l2_def split: option.splits)
  have f: "current_hidden_layer l2 = current_hidden_layer l" "BPerror l2 = BPerror l"
    "net l2 = n'" "history_index l2 = history_index l" "history_ctr l2 = history_ctr l"
    "history_step l2 = history_step l" "itterations l2 = itterations l"
    "error_threshold l2 = error_threshold l" "history l2 = ?hs @ drop ?i (history fresh)"
    by (simp_all add: l2_def)
  have ne: "\<not> float_ne (BPerror l) (BPerror l)"
    using ord by (simp add: compared_floats_ordinary_def float_ne_def float_eq_def)
  have ch: "compare_floats 0 ?i (history l) (?hs @ drop ?i (history fresh)) = Some False"
  proof (rule compare_floats_same)
    show "?i \<le> length (history l)" by (rule h1)
    show "?i \<le> length (?hs @ drop ?i (history fresh))" using lhs by simp
    show "\<forall>j < ?i. history l ! j = (?hs @ drop ?i (history fresh)) ! j
        \<and> \<not> float_is_nan (history l ! j)"
    proof (intro allI impI)
      fix j assume j: "j < ?i"
      then have "(?hs @ drop ?i (history fresh)) ! j = history l ! j"
        using lhs by (simp add: nth_append)
      moreover have "history l ! j \<in> set ?hs"
        using j h1 by (metis (no_types, lifting) in_set_conv_nth lhs nth_take)
      ultimately show "history l ! j = (?hs @ drop ?i (history fresh)) ! j
        \<and> \<not> float_is_nan (history l ! j)"
        using ord by (simp add: compared_floats_ordinary_def)
    qed
  qed
  have ct: "compare_floats 0 ?n (error_threshold l) (error_threshold l) = Some False"
    using t1 ord
    by (intro compare_floats_same) (simp_all add: compared_floats_ordinary_def)
  have "deeplearn_compare ops l l2 = Some 1"
    using ne cn pr ch ct by (simp add: deeplearn_compare_def f not_less)
  then show ?thesis using save load by (simp add: save_load_compare_def)
qed

lemma deeplearn_update_history_length:
  assumes u: "deeplearn_update ops cfg l = Some l'"
  shows "length (history l') = length (history l)"
  using u
proof (cases rule: deeplearn_update_cases)
  case complete
  then show ?thesis by simp
next
  case (step l1 l2)
  show ?thesis
    using step(5) update_history_other(8) [OF step(4)] update_step_history_fields(4) [OF step(3)]
    by simp
qed

lemma stored_inv_update:
  assumes k: "bp_keeps_layers ops"
    and c: "0 < sint (DEEPLEARN_HISTORY_SIZE cfg)"
    and i: "stored_inv cfg l"
    and u: "deeplearn_update ops cfg l = Some l'"
  shows "stored_inv cfg l'"
  using i deeplearn_update_layers [OF k u] deeplearn_update_history_inv [OF c _ u]
    deeplearn_update_history_length [OF u]
  by (simp add: stored_inv_def)

lemma stored_inv_init:
  assumes bi: "bp_init_layers ops" and k: "bp_keeps_layers ops"
    and c: "0 < sint (DEEPLEARN_HISTORY_SIZE cfg)"
    and mem: "length (history l00) = nat (sint (DEEPLEARN_HISTORY_SIZE cfg))"
    and init: "deeplearn_init ops cfg l00 ni nh hl no thr seed = Some (l0, seed')"
  shows "stored_inv cfg l0"
  using init_layers [OF bi k init] init_fields(1,4,10,11,12) [OF init] c mem
  by (simp add: stored_inv_def history_inv_def)

text \<open>
  C1, for learners without a NaN. Every learner that \<^verbatim>\<open>deeplearn_init\<close> and any number
  of calls of \<^verbatim>\<open>deeplearn_update\<close> lead to, and whose current error, stored samples and
  thresholds are no NaN, is saved, loaded into any other struct and found equal to the
  original: \<^verbatim>\<open>deeplearn_compare\<close> returns 1.
\<close>

theorem save_load_round_trip:
  assumes bi: "bp_init_layers ops" and k: "bp_keeps_layers ops" and sl: "bp_save_load ops"
    and c: "0 < sint (DEEPLEARN_HISTORY_SIZE cfg)"
    and mem: "length (history l00) = nat (sint (DEEPLEARN_HISTORY_SIZE cfg))"
    and init: "deeplearn_init ops cfg l00 ni nh hl no thr seed = Some (l0, seed')"
    and run: "deeplearn_updates ops cfg N l0 = Some l"
    and ord: "compared_floats_ordinary l"
    and mem2: "length (history learner2) = nat (sint (DEEPLEARN_HISTORY_SIZE cfg))"
  shows "save_load_compare ops l learner2 seed2 = Some 1"
proof -
  have "stored_inv cfg l"
    using stored_inv_update [OF k c] stored_inv_init [OF bi k c mem init] run
    by (rule updates_invariant)
  then have t: "0 \<le> sint (HiddenLayers (net l) + 1)"
      "length (error_threshold l) = nat (sint (HiddenLayers (net l) + 1))"
    and h: "0 \<le> sint (history_index l)"
      "nat (sint (history_index l)) \<le> length (history l)"
      "nat (sint (history_index l)) \<le> length (history learner2)"
    using mem2 by (auto simp: stored_inv_def history_inv_def)
  show ?thesis by (rule round_trip [OF sl t h ord])
qed

lemma stub_save_load: "bp_save_load stub_ops"
  by (simp add: bp_save_load_def stub_ops_def bytes_word_bytes)

theorem save_load_round_trip_witness:
  "bp_init_layers stub_ops \<and> bp_keeps_layers stub_ops \<and> bp_save_load stub_ops
   \<and> 0 < sint (DEEPLEARN_HISTORY_SIZE stub_config)
   \<and> length (history stub_memory) = nat (sint (DEEPLEARN_HISTORY_SIZE stub_config))
   \<and> deeplearn_init stub_ops stub_config stub_memory 10 4 2 2
        [0x3DCCCCCD, 0x3DCCCCCD, 0x3DCCCCCD] 123 = Some (test_learner, 124)
   \<and> deeplearn_updates stub_ops stub_config 4 test_learner = Some promoted_learner
   \<and> compared_floats_ordinary promoted_learner
   \<and> save_load_compare stub_ops promoted_learner stub_memory 123 = Some 1"
proof -
  have c: "0 < sint (DEEPLEARN_HISTORY_SIZE stub_config)" by (simp add: stub_config_def)
  have m: "length (history stub_memory) = nat (sint (DEEPLEARN_HISTORY_SIZE stub_config))"
    by (simp add: stub_defs)
  have o: "compared_floats_ordinary promoted_learner"
    by (simp add: compared_floats_ordinary_def promoted_learner_def float_is_nan_def
        float_magnitude_def)
  from save_load_round_trip [OF stub_init_layers stub_keeps_layers stub_save_load c m
      test_learner_init test_learner_updates o m]
  show ?thesis
    using stub_init_layers stub_keeps_layers stub_save_load c m test_learner_init
      test_learner_updates o by blast
qed

text \<open>
  C1 as the spec words it does not hold when a compared float is a NaN. With a NaN as
  the first threshold the learner is saved and loaded bit for bit, and
  \<^verbatim>\<open>deeplearn_compare\<close> returns -10, since \<^verbatim>\<open>!=\<close> holds between a NaN and itself.
\<close>

theorem save_load_nan_counterexample:
  "deeplearn_init stub_ops stub_config stub_memory 10 4 2 2
        [0x7FC00000, 0x3DCCCCCD, 0x3DCCCCCD] 123 = Some (nan_threshold_learner, 124)
   \<and> save_load_compare stub_ops nan_threshold_learner stub_memory 123 = Some (- 10)"
  by code_simp



section \<open>Instances of the comparison\<close>

theorem compare_checks_in_order_witness:
  "nat (sint (history_index test_learner)) \<le> length (history test_learner)
   \<and> nat (sint (history_index test_learner)) \<le> length (history pretrained_learner)
   \<and> nat (sint (HiddenLayers (net test_learner) + 1)) \<le> length (error_threshold test_learner)
   \<and> nat (sint (HiddenLayers (net test_learner) + 1))
        \<le> length (error_threshold pretrained_learner)
   \<and> deeplearn_compare stub_ops test_learner pretrained_learner = Some (- 2)"
proof -
  have h: "nat (sint (history_index test_learner)) \<le> length (history test_learner)"
    "nat (sint (history_index test_learner)) \<le> length (history pretrained_learner)"
    "nat (sint (HiddenLayers (net test_learner) + 1)) \<le> length (error_threshold test_learner)"
    "nat (sint (HiddenLayers (net test_learner) + 1))
        \<le> length (error_threshold pretrained_learner)"
    by (simp_all add: test_learner_def pretrained_learner_def)
  have s: "compare_spec float_eq stub_ops test_learner pretrained_learner = - 2"
    by (simp add: compare_spec_def test_learner_def pretrained_learner_def float_defs)
  from compare_checks_in_order [OF h, of stub_ops] s
  have a: "deeplearn_compare stub_ops test_learner pretrained_learner = Some (- 2)" by simp
  show ?thesis using h a by simp
qed


text \<open>
  C6 as the spec words it does not hold, since the floats are not compared bit for bit.
  The errors +0.0 and -0.0 differ in their sign bit, so the comparison of the spec stops
  at the second check with -2, while \<^verbatim>\<open>deeplearn_compare\<close> returns 1. And a learner whose
  error is a NaN is bit for bit the same as itself, while \<^verbatim>\<open>deeplearn_compare\<close> returns
  -2.
\<close>

theorem compare_bit_for_bit_counterexample:
  "deeplearn_compare stub_ops zero_error_learner negative_zero_error_learner = Some 1
   \<and> compare_spec (=) stub_ops zero_error_learner negative_zero_error_learner = - 2
   \<and> deeplearn_compare stub_ops nan_error_learner nan_error_learner = Some (- 2)
   \<and> compare_spec (=) stub_ops nan_error_learner nan_error_learner = 1"
proof -
  have "deeplearn_compare stub_ops zero_error_learner negative_zero_error_learner = Some 1"
    by code_simp
  moreover have "compare_spec (=) stub_ops zero_error_learner negative_zero_error_learner = - 2"
    by (simp add: compare_spec_def zero_error_learner_def negative_zero_error_learner_def)
  moreover have "deeplearn_compare stub_ops nan_error_learner nan_error_learner = Some (- 2)"
    by code_simp
  moreover have "compare_spec (=) stub_ops nan_error_learner nan_error_learner = 1"
    by (simp add: compare_spec_def stub_ops_def)
  ultimately show ?thesis by simp
qed











section \<open>The thresholds at initialisation\<close>

text \<open>
  C4, as the code has it. \<^verbatim>\<open>deeplearn_init\<close> has no way to fail and never sees the
  length of the threshold array. Given an array of at least \<^verbatim>\<open>hidden_layers+1\<close> floats,
  of whatever length, it returns a learner with the first \<^verbatim>\<open>hidden_layers+1\<close> of them,
  with the network that \<^verbatim>\<open>bp_init\<close> built and with an autocoder.
\<close>

theorem init_copies_thresholds:
  assumes "0 \<le> sint (hidden_layers + 1)"
    and "nat (sint (hidden_layers + 1)) \<le> length thresholds"
  shows "\<exists>l s. deeplearn_init ops cfg l00 ni nh hidden_layers no thresholds seed = Some (l, s)
     \<and> error_threshold l = take (nat (sint (hidden_layers + 1))) thresholds
     \<and> autocoder l \<noteq> None
     \<and> net l = fst (bp_create_autocoder ops (fst (bp_init ops ni nh hidden_layers no seed)) 0)"
  using assms
  by (simp add: deeplearn_init_def Let_def split: prod.splits)

theorem init_copies_thresholds_witness:
  "0 \<le> sint (2 + 1 :: int32)
   \<and> nat (sint (2 + 1 :: int32)) \<le> length [0x3DCCCCCD, 0x3DCCCCCD, 0x3DCCCCCD, 0x3E4CCCCD :: float32]
   \<and> (\<exists>l s. deeplearn_init stub_ops stub_config stub_memory 10 4 2 2
            [0x3DCCCCCD, 0x3DCCCCCD, 0x3DCCCCCD, 0x3E4CCCCD] 123 = Some (l, s)
         \<and> error_threshold l = [0x3DCCCCCD, 0x3DCCCCCD, 0x3DCCCCCD]
         \<and> autocoder l \<noteq> None)"
proof -
  have h1: "0 \<le> sint (2 + 1 :: int32)" by simp
  have h2: "nat (sint (2 + 1 :: int32)) \<le> length [0x3DCCCCCD, 0x3DCCCCCD, 0x3DCCCCCD, 0x3E4CCCCD :: float32]"
    by simp
  from init_copies_thresholds [OF h1 h2, of stub_ops stub_config stub_memory 10 4 2 123]
  obtain l s where "deeplearn_init stub_ops stub_config stub_memory 10 4 2 2
            [0x3DCCCCCD, 0x3DCCCCCD, 0x3DCCCCCD, 0x3E4CCCCD] 123 = Some (l, s)"
    and "error_threshold l = take (nat (sint (2 + 1 :: int32))) [0x3DCCCCCD, 0x3DCCCCCD, 0x3DCCCCCD, 0x3E4CCCCD]"
    and "autocoder l \<noteq> None"
    by blast
  then show ?thesis using h1 h2 by (intro conjI exI [where x = l] exI [where x = s]) simp_all
qed

text \<open>
  C4 as the spec words it does not hold: an array of four thresholds for two hidden
  layers, one more than \<^verbatim>\<open>hidden_layers+1\<close>, is accepted. The learner is the one of the
  test, with network and autocoder allocated; the fourth threshold is dropped.
\<close>

theorem init_ignores_length_counterexample:
  "deeplearn_init stub_ops stub_config stub_memory 10 4 2 2
     [0x3DCCCCCD, 0x3DCCCCCD, 0x3DCCCCCD, 0x3E4CCCCD] 123 = Some (test_learner, 124)
   \<and> length [0x3DCCCCCD, 0x3DCCCCCD, 0x3DCCCCCD, 0x3E4CCCCD :: float32] \<noteq> nat (sint (2 + 1 :: int32))
   \<and> autocoder test_learner \<noteq> None
   \<and> net test_learner = \<lparr>HiddenLayers = 2, BPerrorAverage = 0x461C3C00, net_itterations = 0,
               units = [10, 4, 2]\<rparr>"
  by code_simp

section \<open>The counter of itterations\<close>

lemma deeplearn_update_keeps_itterations:
  assumes u: "deeplearn_update ops cfg l = Some l'"
  shows "itterations l' = itterations l"
  using u
proof (cases rule: deeplearn_update_cases)
  case complete
  then show ?thesis by simp
next
  case (step l1 l2)
  show ?thesis
    using step(5) update_history_other(2) [OF step(4)] update_step_history_fields(6) [OF step(3)]
    by simp
qed

text \<open>
  C7 at the learner of the test. One call of \<^verbatim>\<open>deeplearn_update\<close> with
  \<^verbatim>\<open>training_complete\<close> 0 leaves \<^verbatim>\<open>learner->itterations\<close>, the counter that
  \<^verbatim>\<open>deeplearn_save\<close> writes as the second field, at 0; what it increments is
  \<^verbatim>\<open>learner->net->itterations\<close>.
\<close>

theorem update_leaves_saved_itterations:
  "deeplearn_update stub_ops stub_config test_learner = Some pretrained_learner
   \<and> training_complete test_learner = 0
   \<and> itterations test_learner = 0 \<and> itterations pretrained_learner = 0
   \<and> net_itterations (net test_learner) = 0
   \<and> net_itterations (net pretrained_learner) = 1
   \<and> map_option (take 4 \<circ> drop 4 \<circ> snd) (deeplearn_save stub_ops pretrained_learner)
       = Some (word_bytes (itterations pretrained_learner))"
  by code_simp

section \<open>Loading a truncated file\<close>

text \<open>
  C5 at a file that ends four bytes early. The file of the learner with two stored
  samples has 64 bytes and \<^verbatim>\<open>deeplearn_load\<close> returns 2 for it; with the last sample
  missing \<^verbatim>\<open>deeplearn_load\<close> returns 1, the number of samples that the last \<^verbatim>\<open>fread\<close>
  could read, which is not zero and so stands for success.
\<close>

theorem load_truncated_file_reports_success:
  "length saved_file = 64 \<and> length truncated_file = 60
   \<and> map_option fst (deeplearn_load stub_ops saved_file stub_memory 123) = Some 2
   \<and> map_option fst (deeplearn_load stub_ops truncated_file stub_memory 123) = Some 1"
  by code_simp


section \<open>The overflow of the step of the history\<close>

text \<open>
  A learner that stays in pretraining records a sample every \<open>2 ^ k\<close> calls. From an
  empty history the first compaction comes after \<open>C\<close> calls; each later one needs
  \<open>C - C div 2\<close> more samples at twice the step of the one before. So the step is
  \<open>2 ^ (k + 1)\<close> after \<open>C + (C - C div 2) * (2 ^ (k + 1) - 2)\<close> calls.
\<close>

lemma sint_of_nat32: "n < 2147483648 \<Longrightarrow> sint (of_nat n :: 32 word) = int n"
  by (simp add: signed_of_nat signed_take_bit_int_eq_self)

lemma sint_power2_32: "k < 31 \<Longrightarrow> sint (2 ^ k :: 32 word) = 2 ^ k"
proof -
  assume k: "k < 31"
  have "(2 :: 32 word) ^ k = of_nat (2 ^ k)" by simp
  moreover have "(2 :: nat) ^ k < 2 ^ 31" using k by (intro power_strict_increasing) simp_all
  ultimately show ?thesis using sint_of_nat32 [of "2 ^ k"] by simp
qed

lemma c_div2_of_nat: "n < 2147483648 \<Longrightarrow> c_div2 (of_nat n) = of_nat (n div 2)"
proof -
  assume n: "n < 2147483648"
  have "int n sdiv 2 = int (n div 2)"
    by (simp add: signed_divide_int_def sgn_if zdiv_int)
  then show ?thesis using sint_of_nat32 [OF n] by (simp add: c_div2_def)
qed

lemma stalled_update:
  assumes s: "stalled C i c k l"
  shows "\<exists>l1. stalled C i c k l1
           \<and> deeplearn_update stub_ops cfg l
               = map_option deeplearn_update_itterations (deeplean_update_history cfg l1)"
proof -
  from s obtain a0 where a0: "autocoder l = Some a0" by (auto simp: stalled_def)
  let ?a = "a0\<lparr>BPerrorAverage := 0x3C23D70A, net_itterations := net_itterations a0 + 64\<rparr>"
  let ?l1 = "l\<lparr>net := net l, autocoder := Some ?a, BPerror := 0x3C23D70A\<rparr>"
  have nl: "\<not> float_lt 0x3C23D70A 0" by (simp add: float_defs)
  have p: "deeplearn_update_pretraining stub_ops cfg 0 l = Some ?l1"
    using a0 nl by (simp add: deeplearn_update_pretraining_def stub_ops_def Let_def)
  have "deeplearn_update stub_ops cfg l
      = map_option deeplearn_update_itterations (deeplean_update_history cfg ?l1)"
    using s p
    by (simp add: deeplearn_update_def stalled_def array_index_ok_def Let_def
        split: option.splits)
  moreover have "stalled C i c k ?l1" using s by (simp add: stalled_def)
  ultimately show ?thesis by blast
qed

lemma stalled_itterations:
  "stalled C i c k l \<Longrightarrow> stalled C i c k (deeplearn_update_itterations l)"
  by (simp add: stalled_def)

lemma stalled_counter:
  assumes s: "stalled C i c k l" and k: "k < 31" and c: "c + 1 \<le> 2 ^ k"
  shows "sint (history_ctr l + 1) = int c + 1" and "sint (history_step l) = 2 ^ k"
proof -
  have b: "(2 :: nat) ^ k < 2 ^ 31" using k by (intro power_strict_increasing) simp_all
  have w: "history_ctr l + 1 = of_nat (Suc c)" using s by (simp add: stalled_def)
  have "sint (of_nat (Suc c) :: 32 word) = int (Suc c)"
    using c b by (intro sint_of_nat32) simp
  then show "sint (history_ctr l + 1) = int c + 1" unfolding w by simp
  show "sint (history_step l) = 2 ^ k"
    using s sint_power2_32 [OF k] by (simp add: stalled_def)
qed

lemma stalled_skip:
  assumes s: "stalled C i c k l" and k: "k < 31" and c: "c + 1 < 2 ^ k"
  shows "\<exists>l2. deeplean_update_history cfg l = Some l2 \<and> stalled C i (c + 1) k l2"
proof -
  have le: "c + 1 \<le> 2 ^ k" using c by simp
  have "int (c + 1) < int (2 ^ k)" using c by (simp only: of_nat_less_iff)
  then have "int c + 1 < 2 ^ k" by simp
  then have "\<not> sint (history_step l) \<le> sint (history_ctr l + 1)"
    unfolding stalled_counter [OF s k le] by simp
  then have "deeplean_update_history cfg l = Some (l\<lparr>history_ctr := history_ctr l + 1\<rparr>)"
    by (simp add: deeplean_update_history_def Let_def)
  then show ?thesis using s by (simp add: stalled_def)
qed

lemma stalled_record:
  assumes s: "stalled C i c k l" and k: "k < 31" and c: "c + 1 = 2 ^ k"
    and C: "C < 2147483648" and cfg: "DEEPLEARN_HISTORY_SIZE cfg = of_nat C"
    and i: "i < C"
  shows "\<exists>l2. deeplean_update_history cfg l = Some l2
           \<and> (if i + 1 < C then stalled C (i + 1) 0 k l2
               else stalled C (C div 2) 0 (k + 1) l2)"
proof -
  have le: "c + 1 \<le> 2 ^ k" using c by simp
  have "int (c + 1) = int (2 ^ k)" using c by (simp only:)
  then have "int c + 1 = 2 ^ k" by simp
  then have rec: "sint (history_step l) \<le> sint (history_ctr l + 1)"
    unfolding stalled_counter [OF s k le] by simp
  have si: "sint (history_index l) = int i"
    using s i C sint_of_nat32 [of i] by (simp add: stalled_def)
  have ok: "array_index_ok (history_index l) (history l)"
    using s i si by (simp add: array_index_ok_def stalled_def)
  have iw: "history_index l + 1 = of_nat (Suc i)" using s by (simp add: stalled_def)
  have "sint (of_nat (Suc i) :: 32 word) = int (Suc i)"
    using i C by (intro sint_of_nat32) simp
  then have si1: "sint (history_index l + 1) = int i + 1" unfolding iw by simp
  have sC: "sint (DEEPLEARN_HISTORY_SIZE cfg) = int C"
    using cfg C sint_of_nat32 [of C] by simp
  show ?thesis
  proof (cases "i + 1 < C")
    case True
    then have nc: "\<not> sint (DEEPLEARN_HISTORY_SIZE cfg) \<le> sint (history_index l + 1)"
      unfolding sC si1 by simp
    have "deeplean_update_history cfg l
        = Some (l\<lparr>history_ctr := 0,
             history := (history l)[nat (sint (history_index l)) := recorded_error cfg l],
             history_index := history_index l + 1\<rparr>)"
      using rec ok nc
      by (simp add: deeplean_update_history_def Let_def recorded_error_def)
    then show ?thesis using s True by (simp add: stalled_def)
  next
    case False
    then have e: "i + 1 = C" using i by simp
    then have c2: "sint (DEEPLEARN_HISTORY_SIZE cfg) \<le> sint (history_index l + 1)"
      unfolding sC si1 by simp
    have d: "c_div2 (history_index l + 1) = of_nat (C div 2)"
      unfolding iw using e C c_div2_of_nat [of C] by simp
    have "deeplean_update_history cfg l
        = Some (l\<lparr>history_ctr := 0,
             history := history_halve 0 (nat (sint (history_index l + 1)))
               ((history l)[nat (sint (history_index l)) := recorded_error cfg l]),
             history_index := c_div2 (history_index l + 1),
             history_step := history_step l * 2\<rparr>)"
      using rec ok c2
      by (simp add: deeplean_update_history_def Let_def recorded_error_def)
    then show ?thesis using s False d by (simp add: stalled_def history_halve_length)
  qed
qed


lemma updates_then:
  "deeplearn_updates ops cfg m l = Some l1 \<Longrightarrow> deeplearn_updates ops cfg n l1 = Some l'
   \<Longrightarrow> deeplearn_updates ops cfg (m + n) l = Some l'"
  by (simp add: updates_add)

lemma stalled_step_skip:
  assumes s: "stalled C i c k l" and k: "k < 31" and c: "c + 1 < 2 ^ k"
  shows "\<exists>l'. deeplearn_update stub_ops cfg l = Some l' \<and> stalled C i (c + 1) k l'"
proof -
  from stalled_update [OF s] obtain l1 where l1: "stalled C i c k l1"
    and u: "deeplearn_update stub_ops cfg l
      = map_option deeplearn_update_itterations (deeplean_update_history cfg l1)"
    by blast
  from stalled_skip [OF l1 k c] obtain l2 where
    "deeplean_update_history cfg l1 = Some l2" "stalled C i (c + 1) k l2" by blast
  then show ?thesis using u stalled_itterations by simp
qed

lemma stalled_step_record:
  assumes s: "stalled C i c k l" and k: "k < 31" and c: "c + 1 = 2 ^ k"
    and C: "C < 2147483648" and cfg: "DEEPLEARN_HISTORY_SIZE cfg = of_nat C"
    and i: "i < C"
  shows "\<exists>l'. deeplearn_update stub_ops cfg l = Some l'
           \<and> (if i + 1 < C then stalled C (i + 1) 0 k l'
               else stalled C (C div 2) 0 (k + 1) l')"
proof -
  from stalled_update [OF s] obtain l1 where l1: "stalled C i c k l1"
    and u: "deeplearn_update stub_ops cfg l
      = map_option deeplearn_update_itterations (deeplean_update_history cfg l1)"
    by blast
  from stalled_record [OF l1 k c C cfg i] obtain l2 where
    "deeplean_update_history cfg l1 = Some l2"
    "if i + 1 < C then stalled C (i + 1) 0 k l2 else stalled C (C div 2) 0 (k + 1) l2"
    by blast
  then show ?thesis using u stalled_itterations by (auto split: if_splits)
qed

lemma stalled_run_skip:
  assumes k: "k < 31"
  shows "stalled C i c k l \<Longrightarrow> c + j < 2 ^ k \<Longrightarrow>
    \<exists>l'. deeplearn_updates stub_ops cfg j l = Some l' \<and> stalled C i (c + j) k l'"
proof (induction j arbitrary: l c)
  case 0
  then show ?case by simp
next
  case (Suc j)
  have "c + 1 < 2 ^ k" using Suc.prems(2) by simp
  from stalled_step_skip [OF Suc.prems(1) k this] obtain l1 where
    u: "deeplearn_update stub_ops cfg l = Some l1" and s1: "stalled C i (c + 1) k l1"
    by blast
  have "c + 1 + j < 2 ^ k" using Suc.prems(2) by simp
  from Suc.IH [OF s1 this] obtain l' where
    "deeplearn_updates stub_ops cfg j l1 = Some l'" "stalled C i (c + 1 + j) k l'"
    by blast
  then show ?case using u by (simp add: add.commute add.left_commute)
qed

lemma stalled_run_sample:
  assumes s: "stalled C i 0 k l" and k: "k < 31"
    and C: "C < 2147483648" and cfg: "DEEPLEARN_HISTORY_SIZE cfg = of_nat C"
    and i: "i < C"
  shows "\<exists>l'. deeplearn_updates stub_ops cfg (2 ^ k) l = Some l'
           \<and> (if i + 1 < C then stalled C (i + 1) 0 k l'
               else stalled C (C div 2) 0 (k + 1) l')"
proof -
  have p: "(2 :: nat) ^ k = (2 ^ k - 1) + 1" by simp
  have "0 + (2 ^ k - 1) < (2 :: nat) ^ k" by simp
  from stalled_run_skip [OF k s this, of cfg] obtain l1 where
    r: "deeplearn_updates stub_ops cfg (2 ^ k - 1) l = Some l1"
    and s1: "stalled C i (2 ^ k - 1) k l1" by auto
  have "2 ^ k - 1 + 1 = (2 :: nat) ^ k" by simp
  from stalled_step_record [OF s1 k this C cfg i] obtain l' where
    u: "deeplearn_update stub_ops cfg l1 = Some l'"
    and s': "if i + 1 < C then stalled C (i + 1) 0 k l'
               else stalled C (C div 2) 0 (k + 1) l'" by blast
  have "deeplearn_updates stub_ops cfg ((2 ^ k - 1) + 1) l = Some l'"
    using r u by (intro updates_then [OF r]) simp
  then show ?thesis using s' p by metis
qed

lemma stalled_run_samples:
  assumes k: "k < 31"
    and C: "C < 2147483648" and cfg: "DEEPLEARN_HISTORY_SIZE cfg = of_nat C"
  shows "stalled C i 0 k l \<Longrightarrow> i + m < C \<Longrightarrow>
    \<exists>l'. deeplearn_updates stub_ops cfg (m * 2 ^ k) l = Some l' \<and> stalled C (i + m) 0 k l'"
proof (induction m arbitrary: l i)
  case 0
  then show ?case by simp
next
  case (Suc m)
  have i: "i < C" and i1: "i + 1 < C" using Suc.prems(2) by simp_all
  from stalled_run_sample [OF Suc.prems(1) k C cfg i] i1 obtain l1 where
    r: "deeplearn_updates stub_ops cfg (2 ^ k) l = Some l1"
    and s1: "stalled C (i + 1) 0 k l1" by auto
  have "i + 1 + m < C" using Suc.prems(2) by simp
  from Suc.IH [OF s1 this] obtain l' where
    r': "deeplearn_updates stub_ops cfg (m * 2 ^ k) l1 = Some l'"
    and s': "stalled C (i + 1 + m) 0 k l'" by blast
  have "deeplearn_updates stub_ops cfg (2 ^ k + m * 2 ^ k) l = Some l'"
    by (rule updates_then [OF r r'])
  then show ?case using s' by (simp add: add.commute add.left_commute)
qed

lemma stalled_run_fill:
  assumes s: "stalled C i 0 k l" and k: "k < 31"
    and C: "C < 2147483648" and cfg: "DEEPLEARN_HISTORY_SIZE cfg = of_nat C"
    and i: "i < C"
  shows "\<exists>l'. deeplearn_updates stub_ops cfg ((C - i) * 2 ^ k) l = Some l'
           \<and> stalled C (C div 2) 0 (k + 1) l'"
proof -
  have "i + (C - i - 1) < C" using i by simp
  from stalled_run_samples [OF k C cfg s this] obtain l1 where
    r: "deeplearn_updates stub_ops cfg ((C - i - 1) * 2 ^ k) l = Some l1"
    and s1: "stalled C (i + (C - i - 1)) 0 k l1" by blast
  have e: "i + (C - i - 1) = C - 1" using i by simp
  have lt: "C - 1 < C" and nl: "\<not> C - 1 + 1 < C" using i by simp_all
  from stalled_run_sample [OF s1 [unfolded e] k C cfg lt] nl obtain l' where
    r': "deeplearn_updates stub_ops cfg (2 ^ k) l1 = Some l'"
    and s': "stalled C (C div 2) 0 (k + 1) l'" by auto
  have "deeplearn_updates stub_ops cfg ((C - i - 1) * 2 ^ k + 2 ^ k) l = Some l'"
    by (rule updates_then [OF r r'])
  moreover have "(C - i - 1) * 2 ^ k + 2 ^ k = (C - i) * (2 :: nat) ^ k"
    using i by (metis Suc_diff_Suc Suc_eq_plus1 add.commute diff_diff_left mult_Suc)
  ultimately show ?thesis using s' by simp
qed

lemma stalled_run_doublings:
  assumes s: "stalled C 0 0 0 l"
    and C: "0 < C" "C < 2147483648" and cfg: "DEEPLEARN_HISTORY_SIZE cfg = of_nat C"
  shows "k < 31 \<Longrightarrow>
    \<exists>l'. deeplearn_updates stub_ops cfg (C + (C - C div 2) * (2 ^ (k + 1) - 2)) l = Some l'
         \<and> stalled C (C div 2) 0 (k + 1) l'"
proof (induction k)
  case 0
  from stalled_run_fill [OF s _ C(2) cfg C(1)] show ?case by simp
next
  case (Suc k)
  then have k: "k < 31" by simp
  from Suc.IH [OF k] obtain l1 where
    r: "deeplearn_updates stub_ops cfg (C + (C - C div 2) * (2 ^ (k + 1) - 2)) l = Some l1"
    and s1: "stalled C (C div 2) 0 (k + 1) l1" by blast
  have h: "C div 2 < C" using C(1) by simp
  have k1: "k + 1 < 31" using Suc.prems by simp
  from stalled_run_fill [OF s1 k1 C(2) cfg h] obtain l' where
    r': "deeplearn_updates stub_ops cfg ((C - C div 2) * 2 ^ (k + 1)) l1 = Some l'"
    and s': "stalled C (C div 2) 0 (k + 1 + 1) l'" by blast
  have run: "deeplearn_updates stub_ops cfg
      ((C + (C - C div 2) * (2 ^ (k + 1) - 2)) + (C - C div 2) * 2 ^ (k + 1)) l = Some l'"
    by (rule updates_then [OF r r'])
  have p: "(2 :: nat) ^ (Suc k + 1) - 2 = (2 ^ (k + 1) - 2) + 2 ^ (k + 1)" by simp
  have eq: "(C + (C - C div 2) * (2 ^ (k + 1) - 2)) + (C - C div 2) * 2 ^ (k + 1)
      = C + (C - C div 2) * (2 ^ (Suc k + 1) - 2)"
    unfolding p by (simp only: distrib_left add.assoc)
  have run': "deeplearn_updates stub_ops cfg (C + (C - C div 2) * (2 ^ (Suc k + 1) - 2)) l
      = Some l'"
    using run unfolding eq .
  have s'': "stalled C (C div 2) 0 (Suc k + 1) l'" using s' by simp
  show ?case using run' s'' by blast
qed


lemma stalled_learner_init:
  "deeplearn_init stub_ops long_config long_memory 10 4 1 2 [0, 0] 123
     = Some (stalled_learner, 124)"
  by (simp add: deeplearn_init_def stub_defs long_config_def long_memory_def
      stalled_learner_def Let_def)

lemma stalled_learner_stalled: "stalled 1024 0 0 0 stalled_learner"
  by (simp add: stalled_def stalled_learner_def)

text \<open>
  C8 as the spec words it does not hold for every number of steps. With a history of
  1024 samples and a learner that stays in pretraining, the step has doubled 31 times
  after \<open>2 ^ 40\<close> calls of \<^verbatim>\<open>deeplearn_update\<close>: the int has overflowed to
  \<open>- 2 ^ 31\<close>, which is no power of two.
\<close>

theorem history_step_overflow_counterexample:
  "deeplearn_init stub_ops long_config long_memory 10 4 1 2 [0, 0] 123
     = Some (stalled_learner, 124)
   \<and> map_option (sint \<circ> history_step)
        (deeplearn_updates stub_ops long_config 1099511627776 stalled_learner)
       = Some (- 2147483648)"
proof -
  have cfg: "DEEPLEARN_HISTORY_SIZE long_config = of_nat 1024"
    by (simp add: long_config_def)
  have n: "(1024 :: nat) + (1024 - 1024 div 2) * (2 ^ (30 + 1) - 2) = 1099511627776"
    by simp
  from stalled_run_doublings [OF stalled_learner_stalled _ _ cfg, of 30]
  obtain l' where
    r: "deeplearn_updates stub_ops long_config
          (1024 + (1024 - 1024 div 2) * (2 ^ (30 + 1) - 2)) stalled_learner = Some l'"
    and s: "stalled 1024 (1024 div 2) 0 (30 + 1) l'"
    by auto
  have "history_step l' = 2 ^ 31" using s by (simp add: stalled_def)
  then have "sint (history_step l') = - 2147483648" by simp
  then show ?thesis using r stalled_learner_init unfolding n by simp
qed



section \<open>Every call of \<^verbatim>\<open>deeplearn_update\<close> returns\<close>

text \<open>
  After \<^verbatim>\<open>deeplearn_init\<close> with a number of hidden layers that is not negative, any
  number of calls of \<^verbatim>\<open>deeplearn_update\<close> stays within defined behaviour: the
  hypothesis \<open>deeplearn_updates ops cfg N l0 = Some l\<close> of the theorems above excludes no
  run.
\<close>

lemma deeplearn_update_defined:
  assumes i: "defined_inv cfg l"
  shows "\<exists>l'. deeplearn_update ops cfg l = Some l'"
proof (cases "training_complete l = 1")
  case True
  then show ?thesis by (simp add: deeplearn_update_def)
next
  case False
  let ?m = "error_threshold l ! nat (sint (current_hidden_layer l))"
  have ok: "array_index_ok (current_hidden_layer l) (error_threshold l)"
    using i by (auto simp: defined_inv_def threshold_inv_def array_index_ok_def)
  have "\<exists>l1. (if sint (current_hidden_layer l) < sint (HiddenLayers (net l))
       then deeplearn_update_pretraining ops cfg ?m l
       else Some (deeplearn_update_training ops ?m l)) = Some l1
       \<and> history_index l1 = history_index l \<and> history l1 = history l"
  proof (cases "sint (current_hidden_layer l) < sint (HiddenLayers (net l))")
    case True
    then obtain a0 where "autocoder l = Some a0"
      using i by (auto simp: defined_inv_def autocoder_ready_def)
    then have "deeplearn_update_pretraining ops cfg ?m l \<noteq> None"
      by (simp add: deeplearn_update_pretraining_def Let_def split: prod.splits)
    then obtain l1 where p: "deeplearn_update_pretraining ops cfg ?m l = Some l1"
      by auto
    then show ?thesis using True pretraining_history(1,4) [OF p] by simp
  next
    case False
    then show ?thesis by simp
  qed
  then obtain l1 where l1: "(if sint (current_hidden_layer l) < sint (HiddenLayers (net l))
       then deeplearn_update_pretraining ops cfg ?m l
       else Some (deeplearn_update_training ops ?m l)) = Some l1"
    and f: "history_index l1 = history_index l" "history l1 = history l" by blast
  have "array_index_ok (history_index l1) (history l1)"
    using i f by (auto simp: defined_inv_def history_inv_def array_index_ok_def)
  then obtain l2 where "deeplean_update_history cfg l1 = Some l2"
    using update_history_defined by blast
  then show ?thesis using False ok l1 by (simp add: deeplearn_update_def Let_def)
qed

lemma deeplearn_update_ready:
  assumes k: "bp_keeps_layers ops"
    and r: "autocoder_ready l"
    and u: "deeplearn_update ops cfg l = Some l'"
  shows "autocoder_ready l'"
  using u
proof (cases rule: deeplearn_update_cases)
  case complete
  then show ?thesis using r by simp
next
  case (step l1 l2)
  let ?m = "error_threshold l ! nat (sint (current_hidden_layer l))"
  have l': "HiddenLayers (net l') = HiddenLayers (net l1)" "autocoder l' = autocoder l1"
    "current_hidden_layer l' = current_hidden_layer l1"
    using step(5) update_history_other [OF step(4)] by simp_all
  have "autocoder_ready l1"
  proof (cases "sint (current_hidden_layer l) < sint (HiddenLayers (net l))")
    case True
    then have p: "deeplearn_update_pretraining ops cfg ?m l = Some l1" using step(3) by simp
    from pretraining_layers(2) [OF k True p] show ?thesis
      by (simp add: autocoder_inv_def autocoder_ready_def)
  next
    case False
    then have t: "l1 = deeplearn_update_training ops ?m l" using step(3) by simp
    show ?thesis using t False training_layers [OF k, of ?m l]
      by (simp add: autocoder_ready_def)
  qed
  then show ?thesis using l' by (simp add: autocoder_ready_def)
qed

lemma defined_inv_update:
  assumes k: "bp_keeps_layers ops"
    and c: "0 < sint (DEEPLEARN_HISTORY_SIZE cfg)"
    and i: "defined_inv cfg l"
    and u: "deeplearn_update ops cfg l = Some l'"
  shows "defined_inv cfg l'"
proof -
  have "autocoder_ready l'"
    using deeplearn_update_ready [OF k _ u] i by (simp add: defined_inv_def)
  moreover have "threshold_inv l'"
    using deeplearn_update_layers [OF k u] i by (auto simp: defined_inv_def threshold_inv_def)
  moreover have "history_inv cfg l'"
    using deeplearn_update_history_inv [OF c _ u] i by (simp add: defined_inv_def)
  moreover have "length (history l') = nat (sint (DEEPLEARN_HISTORY_SIZE cfg))"
    using deeplearn_update_history_length [OF u] i by (simp add: defined_inv_def)
  ultimately show ?thesis by (simp add: defined_inv_def)
qed

lemma deeplearn_updates_defined_from:
  assumes k: "bp_keeps_layers ops"
    and c: "0 < sint (DEEPLEARN_HISTORY_SIZE cfg)"
  shows "defined_inv cfg l \<Longrightarrow> \<exists>l'. deeplearn_updates ops cfg N l = Some l'"
proof (induction N arbitrary: l)
  case 0
  then show ?case by simp
next
  case (Suc N)
  from deeplearn_update_defined [OF Suc.prems] obtain l1 where
    u: "deeplearn_update ops cfg l = Some l1" by blast
  from Suc.IH [OF defined_inv_update [OF k c Suc.prems u]] show ?case using u by simp
qed

lemma deeplearn_updates_defined:
  assumes bi: "bp_init_layers ops" and k: "bp_keeps_layers ops"
    and hl: "0 \<le> sint hl"
    and c: "0 < sint (DEEPLEARN_HISTORY_SIZE cfg)"
    and mem: "length (history l00) = nat (sint (DEEPLEARN_HISTORY_SIZE cfg))"
    and init: "deeplearn_init ops cfg l00 ni nh hl no thr seed = Some (l0, seed')"
  shows "\<exists>l. deeplearn_updates ops cfg N l0 = Some l"
proof -
  have h: "HiddenLayers (net l0) = hl" by (rule init_layers [OF bi k init])
  have n: "0 \<le> sint (hl + 1)" by (rule init_fields(11) [OF init])
  have lt: "sint hl < 2147483647"
  proof (rule ccontr)
    assume "\<not> sint hl < 2147483647"
    then have "sint hl = 2147483647" using sint_range32 [of hl] by simp
    then have "hl = 2147483647" by (intro signed_word_eqI) simp
    then show False using n by simp
  qed
  have s: "sint (hl + 1) = sint hl + 1" by (rule sint_succ [OF lt])
  have "defined_inv cfg l0"
    using h hl lt s c mem init_fields(1,4,6,8,10,12) [OF init]
    by (simp add: defined_inv_def autocoder_ready_def threshold_inv_def history_inv_def)
  then show ?thesis by (rule deeplearn_updates_defined_from [OF k c])
qed

end
